theory Spec2Isabelle
  imports Complex_Main "HOL-Library.AList" "HOL-Library.Multiset"
begin

section \<open>The in-memory entity store of \<^verbatim>\<open>src/server/storage.ts\<close>\<close>

text \<open>
  The class \<^verbatim>\<open>MemStorage\<close> keeps ten JavaScript \<^verbatim>\<open>Map\<close>s from identifier strings to
  entity objects. A \<^verbatim>\<open>Map\<close> iterates in insertion order and \<^verbatim>\<open>set\<close> on a key that is
  already present replaces the value in place, so each map is an association list:
  \<^verbatim>\<open>get\<close> is \<open>map_of\<close>, \<^verbatim>\<open>set\<close> is \<open>AList.update\<close> and
  \<^verbatim>\<open>Array.from(m.values())\<close> is \<open>map snd\<close>.

  The two sources of values that the class does not compute itself,
  \<^verbatim>\<open>randomUUID()\<close> and \<^verbatim>\<open>new Date()\<close>, are arguments of each operation that calls
  them, in the order of the calls; \<^verbatim>\<open>new Date()\<close> is the current time, a valid date, given
  as the integer \<^verbatim>\<open>getTime()\<close> returns for it (milliseconds since the epoch). Every method is \<^verbatim>\<open>async\<close> without an \<^verbatim>\<open>await\<close> on
  anything but the class's own methods, so a call runs to completion and is a function
  from the store before to the result and the store after.
\<close>

subsection \<open>Values\<close>

text \<open>
  The entity types are imported from \<^verbatim>\<open>@shared/schema\<close>, whose column types are
  not part of the sources at hand. The fields of each entity are those of the object
  literal its \<^verbatim>\<open>create\<close> method builds; a field whose column type cannot be read off
  the code (an amount, a location) holds an opaque JSON value. \<^verbatim>\<open>x ?? null\<close> makes a
  field nullable: \<open>None\<close> is \<^verbatim>\<open>null\<close>.
\<close>

type_synonym number = real
type_synonym time = int

text \<open>
  A \<^verbatim>\<open>Date\<close> object holds a time or is an Invalid Date, whose \<^verbatim>\<open>getTime()\<close> is \<^verbatim>\<open>NaN\<close>
  (\<open>None\<close>). A field that only \<^verbatim>\<open>new Date()\<close> ever fills (the \<^verbatim>\<open>createdAt\<close> of the
  kinds that have no update method) is a \<open>time\<close>; a field a caller can fill, through
  the data of a create call or through a partial update, is a \<open>date\<close>.
\<close>

datatype date = Date time | Invalid_Date

fun getTime :: "date \<Rightarrow> time option" where
  "getTime (Date t) = Some t"
| "getTime Invalid_Date = None"

datatype jsval =
    JNull
  | JBool bool
  | JNum number
  | JStr string
  | JArr "jsval list"
  | JObj "(string \<times> jsval) list"

datatype error = Error string

subsection \<open>Entities\<close>

record user =
  u_id :: string
  u_name :: string
  u_email :: string
  u_password :: string
  u_userType :: string
  u_phone :: "string option"
  u_avatar :: "string option"
  u_bio :: "string option"
  u_location :: "jsval option"
  u_verified :: bool
  u_createdAt :: date

record insert_user =
  iu_name :: string
  iu_email :: string
  iu_password :: string
  iu_userType :: string
  iu_phone :: "string option"
  iu_bio :: "string option"
  iu_location :: "jsval option"

text \<open>
  \<^verbatim>\<open>Partial<User>\<close>: each field is named (\<open>Some\<close>, with a value of the field's type)
  or left out (\<open>None\<close>). The same holds for the partial updates of the other kinds.
\<close>

record partial_user =
  pu_id :: "string option"
  pu_name :: "string option"
  pu_email :: "string option"
  pu_password :: "string option"
  pu_userType :: "string option"
  pu_phone :: "string option option"
  pu_avatar :: "string option option"
  pu_bio :: "string option option"
  pu_location :: "jsval option option"
  pu_verified :: "bool option"
  pu_createdAt :: "date option"

record geo =
  lat :: number
  lng :: number
  address :: string

record organization =
  o_id :: string
  o_userId :: string
  o_name :: string
  o_description :: "string option"
  o_website :: "string option"
  o_documents :: "string list"
  o_verified :: bool
  o_createdAt :: time
  o_location :: "geo option"

record insert_organization =
  io_userId :: string
  io_name :: string
  io_description :: "string option"
  io_website :: "string option"
  io_documents :: "string list option"
  io_location :: "geo option"

record donation =
  d_id :: string
  d_donorId :: string
  d_recipientId :: "string option"
  d_type :: string
  d_title :: string
  d_description :: "string option"
  d_amount :: "jsval option"
  d_quantity :: "jsval option"
  d_location :: "jsval option"
  d_images :: "string list"
  d_status :: string
  d_expiryDate :: "date option"
  d_createdAt :: date

record insert_donation =
  id_donorId :: string
  id_type :: string
  id_title :: string
  id_description :: "string option"
  id_amount :: "jsval option"
  id_quantity :: "jsval option"
  id_location :: "jsval option"
  id_images :: "string list option"
  id_expiryDate :: "date option"

record partial_donation =
  pd_id :: "string option"
  pd_donorId :: "string option"
  pd_recipientId :: "string option option"
  pd_type :: "string option"
  pd_title :: "string option"
  pd_description :: "string option option"
  pd_amount :: "jsval option option"
  pd_quantity :: "jsval option option"
  pd_location :: "jsval option option"
  pd_images :: "string list option"
  pd_status :: "string option"
  pd_expiryDate :: "date option option"
  pd_createdAt :: "date option"

record request =
  r_id :: string
  r_requesterId :: string
  r_type :: string
  r_title :: string
  r_description :: string
  r_urgency :: "string option"
  r_targetAmount :: "jsval option"
  r_raisedAmount :: string
  r_targetQuantity :: "jsval option"
  r_receivedQuantity :: int
  r_location :: "jsval option"
  r_images :: "string list"
  r_status :: string
  r_deadline :: "date option"
  r_createdAt :: date

record insert_request =
  ir_requesterId :: string
  ir_type :: string
  ir_title :: string
  ir_description :: string
  ir_urgency :: "string option"
  ir_targetAmount :: "jsval option"
  ir_targetQuantity :: "jsval option"
  ir_location :: "jsval option"
  ir_images :: "string list option"
  ir_deadline :: "date option"

record partial_request =
  pr_id :: "string option"
  pr_requesterId :: "string option"
  pr_type :: "string option"
  pr_title :: "string option"
  pr_description :: "string option"
  pr_urgency :: "string option option"
  pr_targetAmount :: "jsval option option"
  pr_raisedAmount :: "string option"
  pr_targetQuantity :: "jsval option option"
  pr_receivedQuantity :: "int option"
  pr_location :: "jsval option option"
  pr_images :: "string list option"
  pr_status :: "string option"
  pr_deadline :: "date option option"
  pr_createdAt :: "date option"

record activity =
  a_id :: string
  a_organizerId :: string
  a_title :: string
  a_description :: string
  a_location :: jsval
  a_startTime :: date
  a_endTime :: date
  a_maxVolunteers :: "int option"
  a_currentVolunteers :: int
  a_skills :: "string list"
  a_status :: string
  a_createdAt :: date

record insert_activity =
  ia_organizerId :: string
  ia_title :: string
  ia_description :: string
  ia_location :: jsval
  ia_startTime :: date
  ia_endTime :: date
  ia_maxVolunteers :: "int option"
  ia_skills :: "string list option"

record partial_activity =
  pa_id :: "string option"
  pa_organizerId :: "string option"
  pa_title :: "string option"
  pa_description :: "string option"
  pa_location :: "jsval option"
  pa_startTime :: "date option"
  pa_endTime :: "date option"
  pa_maxVolunteers :: "int option option"
  pa_currentVolunteers :: "int option"
  pa_skills :: "string list option"
  pa_status :: "string option"
  pa_createdAt :: "date option"

record volunteer_registration =
  v_id :: string
  v_activityId :: string
  v_volunteerId :: string
  v_status :: string
  v_message :: "string option"
  v_createdAt :: time

record insert_volunteer_registration =
  iv_activityId :: string
  iv_volunteerId :: string
  iv_message :: "string option"

record match =
  m_id :: string
  m_donationId :: "string option"
  m_requestId :: "string option"
  m_activityId :: "string option"
  m_userId :: string
  m_score :: string
  m_reason :: "string option"
  m_status :: "string option"
  m_createdAt :: time

text \<open>\<^verbatim>\<open>Omit<Match, 'id' | 'createdAt'>\<close>\<close>

record match_data =
  md_donationId :: "string option"
  md_requestId :: "string option"
  md_activityId :: "string option"
  md_userId :: string
  md_score :: string
  md_reason :: "string option"
  md_status :: "string option"

record activity_feed_item =
  f_id :: string
  f_userId :: string
  f_type :: string
  f_title :: string
  f_description :: string
  f_metadata :: "(string \<times> jsval) list"
  f_likes :: int
  f_comments :: int
  f_createdAt :: time

text \<open>\<^verbatim>\<open>Omit<ActivityFeedItem, 'id' | 'createdAt'>\<close>\<close>

record item_data =
  fd_userId :: string
  fd_type :: string
  fd_title :: string
  fd_description :: string
  fd_metadata :: "(string \<times> jsval) list"
  fd_likes :: int
  fd_comments :: int

record payment =
  p_id :: string
  p_payerId :: string
  p_recipientId :: string
  p_donationId :: "string option"
  p_requestId :: "string option"
  p_amount :: jsval
  p_razorpayPaymentId :: "string option"
  p_razorpayOrderId :: "string option"
  p_status :: string
  p_createdAt :: date

record insert_payment =
  ip_payerId :: string
  ip_recipientId :: string
  ip_donationId :: "string option"
  ip_requestId :: "string option"
  ip_amount :: jsval
  ip_razorpayPaymentId :: "string option"
  ip_razorpayOrderId :: "string option"
  ip_status :: string

record partial_payment =
  pp_id :: "string option"
  pp_payerId :: "string option"
  pp_recipientId :: "string option"
  pp_donationId :: "string option option"
  pp_requestId :: "string option option"
  pp_amount :: "jsval option"
  pp_razorpayPaymentId :: "string option option"
  pp_razorpayOrderId :: "string option option"
  pp_status :: "string option"
  pp_createdAt :: "date option"

text \<open>
  Modelled from the spec: the declaration of the \<^verbatim>\<open>Notification\<close> type is in
  \<^verbatim>\<open>@shared/schema\<close>, which is not among the sources. The specification gives it
  the fields \<^verbatim>\<open>userId\<close>, \<^verbatim>\<open>read\<close> and "payload fields"; the code adds \<^verbatim>\<open>id\<close> and
  \<^verbatim>\<open>createdAt\<close>. The payload fields, which the store only copies, are kept together
  as a list of named JSON values.
\<close>

record notification =
  n_id :: string
  n_userId :: string
  n_read :: bool
  n_createdAt :: time
  n_payload :: "(string \<times> jsval) list"

text \<open>\<^verbatim>\<open>Omit<Notification, 'id' | 'createdAt'>\<close>\<close>

record notification_data =
  nd_userId :: string
  nd_read :: bool
  nd_payload :: "(string \<times> jsval) list"

subsection \<open>The store\<close>

record store =
  users :: "(string \<times> user) list"
  organizations :: "(string \<times> organization) list"
  donations :: "(string \<times> donation) list"
  requests :: "(string \<times> request) list"
  activities :: "(string \<times> activity) list"
  volunteerRegistrations :: "(string \<times> volunteer_registration) list"
  matches :: "(string \<times> match) list"
  activityFeed :: "(string \<times> activity_feed_item) list"
  payments :: "(string \<times> payment) list"
  notifications :: "(string \<times> notification) list"

text \<open>\<^verbatim>\<open>new MemStorage()\<close>: every map is empty.\<close>

definition empty_store :: store where
  "empty_store = \<lparr> users = [], organizations = [], donations = [], requests = [],
     activities = [], volunteerRegistrations = [], matches = [], activityFeed = [],
     payments = [], notifications = [] \<rparr>"

subsection \<open>JavaScript idioms\<close>

text \<open>
  \<^verbatim>\<open>{ ...a, ...b }\<close> copies the fields of \<^verbatim>\<open>a\<close> and then those of \<^verbatim>\<open>b\<close>: a field that
  \<^verbatim>\<open>b\<close> names takes \<^verbatim>\<open>b\<close>'s value, any other keeps the value of \<^verbatim>\<open>a\<close>.
\<close>

definition spread :: "'a \<Rightarrow> 'a option \<Rightarrow> 'a" where
  "spread old upd = (case upd of Some v \<Rightarrow> v | None \<Rightarrow> old)"

text \<open>
  Truthiness of an optional string, as in \<^verbatim>\<open>if (filters?.type)\<close>: \<^verbatim>\<open>undefined\<close> and the
  empty string are falsy.
\<close>

definition truthy :: "string option \<Rightarrow> bool" where
  "truthy x = (case x of None \<Rightarrow> False | Some v \<Rightarrow> v \<noteq> [])"

text \<open>
  \<^verbatim>\<open>xs.slice(0, end)\<close> for an integral \<^verbatim>\<open>end\<close>: a negative \<^verbatim>\<open>end\<close> counts from the end
  of the array, and the bound is clamped to the array.
\<close>

definition slice0 :: "int \<Rightarrow> 'a list \<Rightarrow> 'a list" where
  "slice0 end xs =
     (let len = int (length xs);
          k = (if end < 0 then max (len + end) 0 else min end len)
      in take (nat k) xs)"

text \<open>
  A number that can be \<^verbatim>\<open>NaN\<close> (\<open>None\<close>), as \<^verbatim>\<open>getTime()\<close> returns it, and the
  subtraction of two such numbers.
\<close>

definition js_minus :: "int option \<Rightarrow> int option \<Rightarrow> int option" where
  "js_minus x y = (case x of None \<Rightarrow> None | Some a \<Rightarrow> (case y of None \<Rightarrow> None | Some b \<Rightarrow> Some (a - b)))"

text \<open>
  \<^verbatim>\<open>xs.sort(comparefn)\<close>. The comparison functions of this class are differences of
  two times. Such a function is a consistent comparison function, in the sense of the
  language standard, exactly when it returns \<^verbatim>\<open>NaN\<close> for no pair of elements; the sort
  is then the stable sort by \<^verbatim>\<open>comparefn\<close>, written here as an insertion sort that
  puts an element before the first one it does not compare greater than. When the
  function returns \<^verbatim>\<open>NaN\<close> for some pair, the standard leaves the order to the
  implementation, and nothing is said about the result.
\<close>

fun insert_by :: "('a \<Rightarrow> 'a \<Rightarrow> int) \<Rightarrow> 'a \<Rightarrow> 'a list \<Rightarrow> 'a list" where
  "insert_by cmp x [] = [x]"
| "insert_by cmp x (y # ys) = (if cmp x y \<le> 0 then x # y # ys else y # insert_by cmp x ys)"

definition never_NaN :: "('a \<Rightarrow> 'a \<Rightarrow> int option) \<Rightarrow> 'a list \<Rightarrow> bool" where
  "never_NaN comparefn xs = list_all (\<lambda>a. list_all (\<lambda>b. comparefn a b \<noteq> None) xs) xs"

definition implementation_defined_order ::
  "('a \<Rightarrow> 'a \<Rightarrow> int option) \<Rightarrow> 'a list \<Rightarrow> 'a list" where
  "implementation_defined_order = undefined"

definition js_sort :: "('a \<Rightarrow> 'a \<Rightarrow> int option) \<Rightarrow> 'a list \<Rightarrow> 'a list" where
  "js_sort comparefn xs =
     (if never_NaN comparefn xs
      then foldr (insert_by (\<lambda>a b. case comparefn a b of Some v \<Rightarrow> v | None \<Rightarrow> 0)) xs []
      else implementation_defined_order comparefn xs)"

text \<open>The argument \<^verbatim>\<open>{ lat, lng, radius? }\<close> of the location queries.\<close>

record location_filter =
  lf_lat :: number
  lf_lng :: number
  lf_radius :: "number option"

subsection \<open>Users\<close>

definition getUser :: "string \<Rightarrow> store \<Rightarrow> user option" where
  "getUser i s = map_of (users s) i"

definition getUserByEmail :: "string \<Rightarrow> store \<Rightarrow> user option" where
  "getUserByEmail email s = find (\<lambda>user. u_email user = email) (map snd (users s))"

definition createUser :: "string \<Rightarrow> time \<Rightarrow> insert_user \<Rightarrow> store \<Rightarrow> user \<times> store" where
  "createUser uuid now insertUser s =
     (let user = \<lparr> u_id = uuid,
            u_name = iu_name insertUser,
            u_email = iu_email insertUser,
            u_password = iu_password insertUser,
            u_userType = iu_userType insertUser,
            u_phone = iu_phone insertUser,
            u_avatar = None,
            u_bio = iu_bio insertUser,
            u_location = iu_location insertUser,
            u_verified = False,
            u_createdAt = Date now \<rparr>
      in (user, s\<lparr> users := AList.update uuid user (users s) \<rparr>))"

definition spread_user :: "user \<Rightarrow> partial_user \<Rightarrow> user" where
  "spread_user user userUpdate =
     \<lparr> u_id = spread (u_id user) (pu_id userUpdate),
       u_name = spread (u_name user) (pu_name userUpdate),
       u_email = spread (u_email user) (pu_email userUpdate),
       u_password = spread (u_password user) (pu_password userUpdate),
       u_userType = spread (u_userType user) (pu_userType userUpdate),
       u_phone = spread (u_phone user) (pu_phone userUpdate),
       u_avatar = spread (u_avatar user) (pu_avatar userUpdate),
       u_bio = spread (u_bio user) (pu_bio userUpdate),
       u_location = spread (u_location user) (pu_location userUpdate),
       u_verified = spread (u_verified user) (pu_verified userUpdate),
       u_createdAt = spread (u_createdAt user) (pu_createdAt userUpdate) \<rparr>"

text \<open>
  The update methods throw before they write. The result pairs what the caller gets
  (the error thrown or the record returned) with the store after the call.
\<close>

definition updateUser ::
  "string \<Rightarrow> partial_user \<Rightarrow> store \<Rightarrow> (error + user) \<times> store" where
  "updateUser i userUpdate s =
     (case map_of (users s) i of
        None \<Rightarrow> (Inl (Error ''User not found''), s)
      | Some user \<Rightarrow>
          (let updatedUser = spread_user user userUpdate
           in (Inr updatedUser, s\<lparr> users := AList.update i updatedUser (users s) \<rparr>)))"

subsection \<open>Organizations\<close>

definition createOrganization ::
  "string \<Rightarrow> time \<Rightarrow> insert_organization \<Rightarrow> store \<Rightarrow> organization \<times> store" where
  "createOrganization uuid now orgData s =
     (let organization = \<lparr> o_id = uuid,
            o_userId = io_userId orgData,
            o_name = io_name orgData,
            o_description = io_description orgData,
            o_website = io_website orgData,
            o_documents = (case io_documents orgData of Some ds \<Rightarrow> ds | None \<Rightarrow> []),
            o_verified = False,
            o_createdAt = now,
            o_location = io_location orgData \<rparr>
      in (organization,
          s\<lparr> organizations := AList.update uuid organization (organizations s) \<rparr>))"

definition getOrganizationByUserId :: "string \<Rightarrow> store \<Rightarrow> organization option" where
  "getOrganizationByUserId userId s =
     find (\<lambda>org. o_userId org = userId) (map snd (organizations s))"





subsection \<open>The activity feed\<close>

definition createActivityFeedItem ::
  "string \<Rightarrow> time \<Rightarrow> item_data \<Rightarrow> store \<Rightarrow> activity_feed_item \<times> store" where
  "createActivityFeedItem uuid now itemData s =
     (let item = \<lparr> f_id = uuid,
            f_userId = fd_userId itemData,
            f_type = fd_type itemData,
            f_title = fd_title itemData,
            f_description = fd_description itemData,
            f_metadata = fd_metadata itemData,
            f_likes = fd_likes itemData,
            f_comments = fd_comments itemData,
            f_createdAt = now \<rparr>
      in (item, s\<lparr> activityFeed := AList.update uuid item (activityFeed s) \<rparr>))"

text \<open>
  \<^verbatim>\<open>getActivityFeed(limit = 50)\<close>: \<open>None\<close> is a call without the argument. The
  comparator \<^verbatim>\<open>b.createdAt.getTime() - a.createdAt.getTime()\<close> is a difference of two
  times, the creation time of a feed item being always a valid date.
\<close>

definition getActivityFeed :: "int option \<Rightarrow> store \<Rightarrow> activity_feed_item list" where
  "getActivityFeed arg s =
     (let limit = (case arg of None \<Rightarrow> 50 | Some n \<Rightarrow> n)
      in slice0 limit
           (js_sort (\<lambda>a b. Some (f_createdAt b - f_createdAt a))
              (map snd (activityFeed s))))"

subsection \<open>Donations\<close>

text \<open>
  \<^verbatim>\<open>createDonation\<close> calls \<^verbatim>\<open>randomUUID()\<close> and \<^verbatim>\<open>new Date()\<close> for the donation and,
  through \<^verbatim>\<open>createActivityFeedItem\<close>, once more for the feed item: \<open>uuid\<close>, \<open>now\<close>, then
  \<open>fuuid\<close>, \<open>fnow\<close>. \<^verbatim>\<open>donation.description || ''\<close> replaces \<^verbatim>\<open>null\<close> (and the empty
  string) by the empty string.
\<close>

definition createDonation ::
  "string \<Rightarrow> time \<Rightarrow> string \<Rightarrow> time \<Rightarrow> insert_donation \<Rightarrow> store \<Rightarrow> donation \<times> store" where
  "createDonation uuid now fuuid fnow donationData s =
     (let donation = \<lparr> d_id = uuid,
            d_donorId = id_donorId donationData,
            d_recipientId = None,
            d_type = id_type donationData,
            d_title = id_title donationData,
            d_description = id_description donationData,
            d_amount = id_amount donationData,
            d_quantity = id_quantity donationData,
            d_location = id_location donationData,
            d_images = (case id_images donationData of Some imgs \<Rightarrow> imgs | None \<Rightarrow> []),
            d_status = ''active'',
            d_expiryDate = id_expiryDate donationData,
            d_createdAt = Date now \<rparr>;
          s1 = s\<lparr> donations := AList.update uuid donation (donations s) \<rparr>;
          s2 = snd (createActivityFeedItem fuuid fnow
                 \<lparr> fd_userId = id_donorId donationData,
                   fd_type = ''donation'',
                   fd_title = ''New donation: '' @ d_title donation,
                   fd_description =
                     (if truthy (d_description donation)
                      then (case d_description donation of Some x \<Rightarrow> x | None \<Rightarrow> [])
                      else []),
                   fd_metadata = [(''donationId'', JStr uuid), (''type'', JStr (d_type donation))],
                   fd_likes = 0,
                   fd_comments = 0 \<rparr> s1)
      in (donation, s2))"

record donation_filters =
  df_type :: "string option"
  df_location :: "location_filter option"

text \<open>
  \<^verbatim>\<open>getDonations(filters?)\<close>: \<open>None\<close> is a call without the argument, and
  \<open>Option.bind filters df_type\<close> is \<^verbatim>\<open>filters?.type\<close>. The method never reads
  \<^verbatim>\<open>filters.location\<close>.
\<close>

definition getDonations :: "donation_filters option \<Rightarrow> store \<Rightarrow> donation list" where
  "getDonations filters s =
     (let donations0 = map snd (donations s);
          donations1 =
            (if truthy (Option.bind filters df_type)
             then filter (\<lambda>d. Some (d_type d) = Option.bind filters df_type) donations0
             else donations0)
      in js_sort (\<lambda>a b. js_minus (getTime (d_createdAt b)) (getTime (d_createdAt a)))
           donations1)"

definition getDonation :: "string \<Rightarrow> store \<Rightarrow> donation option" where
  "getDonation i s = map_of (donations s) i"

definition spread_donation :: "donation \<Rightarrow> partial_donation \<Rightarrow> donation" where
  "spread_donation donation donationUpdate =
     \<lparr> d_id = spread (d_id donation) (pd_id donationUpdate),
       d_donorId = spread (d_donorId donation) (pd_donorId donationUpdate),
       d_recipientId = spread (d_recipientId donation) (pd_recipientId donationUpdate),
       d_type = spread (d_type donation) (pd_type donationUpdate),
       d_title = spread (d_title donation) (pd_title donationUpdate),
       d_description = spread (d_description donation) (pd_description donationUpdate),
       d_amount = spread (d_amount donation) (pd_amount donationUpdate),
       d_quantity = spread (d_quantity donation) (pd_quantity donationUpdate),
       d_location = spread (d_location donation) (pd_location donationUpdate),
       d_images = spread (d_images donation) (pd_images donationUpdate),
       d_status = spread (d_status donation) (pd_status donationUpdate),
       d_expiryDate = spread (d_expiryDate donation) (pd_expiryDate donationUpdate),
       d_createdAt = spread (d_createdAt donation) (pd_createdAt donationUpdate) \<rparr>"

definition updateDonation ::
  "string \<Rightarrow> partial_donation \<Rightarrow> store \<Rightarrow> (error + donation) \<times> store" where
  "updateDonation i donationUpdate s =
     (case map_of (donations s) i of
        None \<Rightarrow> (Inl (Error ''Donation not found''), s)
      | Some donation \<Rightarrow>
          (let updatedDonation = spread_donation donation donationUpdate
           in (Inr updatedDonation,
               s\<lparr> donations := AList.update i updatedDonation (donations s) \<rparr>)))"

subsection \<open>Requests\<close>

text \<open>
  \<^verbatim>\<open>requestData.urgency ?? "medium"\<close> fills the field of the record, and the metadata
  of the feed item applies \<^verbatim>\<open>?? "medium"\<close> to the record's field once more.
\<close>

definition createRequest ::
  "string \<Rightarrow> time \<Rightarrow> string \<Rightarrow> time \<Rightarrow> insert_request \<Rightarrow> store \<Rightarrow> request \<times> store" where
  "createRequest uuid now fuuid fnow requestData s =
     (let request = \<lparr> r_id = uuid,
            r_requesterId = ir_requesterId requestData,
            r_type = ir_type requestData,
            r_title = ir_title requestData,
            r_description = ir_description requestData,
            r_urgency = Some (case ir_urgency requestData of Some u \<Rightarrow> u | None \<Rightarrow> ''medium''),
            r_targetAmount = ir_targetAmount requestData,
            r_raisedAmount = ''0'',
            r_targetQuantity = ir_targetQuantity requestData,
            r_receivedQuantity = 0,
            r_location = ir_location requestData,
            r_images = (case ir_images requestData of Some imgs \<Rightarrow> imgs | None \<Rightarrow> []),
            r_status = ''active'',
            r_deadline = ir_deadline requestData,
            r_createdAt = Date now \<rparr>;
          s1 = s\<lparr> requests := AList.update uuid request (requests s) \<rparr>;
          s2 = snd (createActivityFeedItem fuuid fnow
                 \<lparr> fd_userId = ir_requesterId requestData,
                   fd_type = ''request'',
                   fd_title = ''New request: '' @ r_title request,
                   fd_description = r_description request,
                   fd_metadata =
                     [(''requestId'', JStr uuid),
                      (''urgency'',
                       JStr (case r_urgency request of Some u \<Rightarrow> u | None \<Rightarrow> ''medium''))],
                   fd_likes = 0,
                   fd_comments = 0 \<rparr> s1)
      in (request, s2))"

record request_filters =
  rf_type :: "string option"
  rf_urgency :: "string option"
  rf_location :: "location_filter option"

definition getRequests :: "request_filters option \<Rightarrow> store \<Rightarrow> request list" where
  "getRequests filters s =
     (let requests0 = map snd (requests s);
          requests1 =
            (if truthy (Option.bind filters rf_type)
             then filter (\<lambda>r. Some (r_type r) = Option.bind filters rf_type) requests0
             else requests0);
          requests2 =
            (if truthy (Option.bind filters rf_urgency)
             then filter (\<lambda>r. r_urgency r = Option.bind filters rf_urgency) requests1
             else requests1)
      in js_sort (\<lambda>a b. js_minus (getTime (r_createdAt b)) (getTime (r_createdAt a)))
           requests2)"

definition getRequest :: "string \<Rightarrow> store \<Rightarrow> request option" where
  "getRequest i s = map_of (requests s) i"

definition spread_request :: "request \<Rightarrow> partial_request \<Rightarrow> request" where
  "spread_request request requestUpdate =
     \<lparr> r_id = spread (r_id request) (pr_id requestUpdate),
       r_requesterId = spread (r_requesterId request) (pr_requesterId requestUpdate),
       r_type = spread (r_type request) (pr_type requestUpdate),
       r_title = spread (r_title request) (pr_title requestUpdate),
       r_description = spread (r_description request) (pr_description requestUpdate),
       r_urgency = spread (r_urgency request) (pr_urgency requestUpdate),
       r_targetAmount = spread (r_targetAmount request) (pr_targetAmount requestUpdate),
       r_raisedAmount = spread (r_raisedAmount request) (pr_raisedAmount requestUpdate),
       r_targetQuantity = spread (r_targetQuantity request) (pr_targetQuantity requestUpdate),
       r_receivedQuantity =
         spread (r_receivedQuantity request) (pr_receivedQuantity requestUpdate),
       r_location = spread (r_location request) (pr_location requestUpdate),
       r_images = spread (r_images request) (pr_images requestUpdate),
       r_status = spread (r_status request) (pr_status requestUpdate),
       r_deadline = spread (r_deadline request) (pr_deadline requestUpdate),
       r_createdAt = spread (r_createdAt request) (pr_createdAt requestUpdate) \<rparr>"

definition updateRequest ::
  "string \<Rightarrow> partial_request \<Rightarrow> store \<Rightarrow> (error + request) \<times> store" where
  "updateRequest i requestUpdate s =
     (case map_of (requests s) i of
        None \<Rightarrow> (Inl (Error ''Request not found''), s)
      | Some request \<Rightarrow>
          (let updatedRequest = spread_request request requestUpdate
           in (Inr updatedRequest,
               s\<lparr> requests := AList.update i updatedRequest (requests s) \<rparr>)))"

subsection \<open>Activities\<close>

definition createActivity ::
  "string \<Rightarrow> time \<Rightarrow> string \<Rightarrow> time \<Rightarrow> insert_activity \<Rightarrow> store \<Rightarrow> activity \<times> store" where
  "createActivity uuid now fuuid fnow activityData s =
     (let activity = \<lparr> a_id = uuid,
            a_organizerId = ia_organizerId activityData,
            a_title = ia_title activityData,
            a_description = ia_description activityData,
            a_location = ia_location activityData,
            a_startTime = ia_startTime activityData,
            a_endTime = ia_endTime activityData,
            a_maxVolunteers = ia_maxVolunteers activityData,
            a_currentVolunteers = 0,
            a_skills = (case ia_skills activityData of Some ks \<Rightarrow> ks | None \<Rightarrow> []),
            a_status = ''active'',
            a_createdAt = Date now \<rparr>;
          s1 = s\<lparr> activities := AList.update uuid activity (activities s) \<rparr>;
          s2 = snd (createActivityFeedItem fuuid fnow
                 \<lparr> fd_userId = ia_organizerId activityData,
                   fd_type = ''volunteer'',
                   fd_title = ''New volunteer opportunity: '' @ a_title activity,
                   fd_description = a_description activity,
                   fd_metadata =
                     [(''activityId'', JStr uuid), (''location'', a_location activity)],
                   fd_likes = 0,
                   fd_comments = 0 \<rparr> s1)
      in (activity, s2))"

record activity_filters =
  af_location :: "location_filter option"

text \<open>\<^verbatim>\<open>getActivities\<close> does not mention its parameter.\<close>

definition getActivities :: "activity_filters option \<Rightarrow> store \<Rightarrow> activity list" where
  "getActivities filters s =
     js_sort (\<lambda>a b. js_minus (getTime (a_startTime a)) (getTime (a_startTime b)))
       (map snd (activities s))"

definition getActivity :: "string \<Rightarrow> store \<Rightarrow> activity option" where
  "getActivity i s = map_of (activities s) i"

definition spread_activity :: "activity \<Rightarrow> partial_activity \<Rightarrow> activity" where
  "spread_activity activity activityUpdate =
     \<lparr> a_id = spread (a_id activity) (pa_id activityUpdate),
       a_organizerId = spread (a_organizerId activity) (pa_organizerId activityUpdate),
       a_title = spread (a_title activity) (pa_title activityUpdate),
       a_description = spread (a_description activity) (pa_description activityUpdate),
       a_location = spread (a_location activity) (pa_location activityUpdate),
       a_startTime = spread (a_startTime activity) (pa_startTime activityUpdate),
       a_endTime = spread (a_endTime activity) (pa_endTime activityUpdate),
       a_maxVolunteers = spread (a_maxVolunteers activity) (pa_maxVolunteers activityUpdate),
       a_currentVolunteers =
         spread (a_currentVolunteers activity) (pa_currentVolunteers activityUpdate),
       a_skills = spread (a_skills activity) (pa_skills activityUpdate),
       a_status = spread (a_status activity) (pa_status activityUpdate),
       a_createdAt = spread (a_createdAt activity) (pa_createdAt activityUpdate) \<rparr>"

definition updateActivity ::
  "string \<Rightarrow> partial_activity \<Rightarrow> store \<Rightarrow> (error + activity) \<times> store" where
  "updateActivity i activityUpdate s =
     (case map_of (activities s) i of
        None \<Rightarrow> (Inl (Error ''Activity not found''), s)
      | Some activity \<Rightarrow>
          (let updatedActivity = spread_activity activity activityUpdate
           in (Inr updatedActivity,
               s\<lparr> activities := AList.update i updatedActivity (activities s) \<rparr>)))"

subsection \<open>Volunteer registrations\<close>

definition createVolunteerRegistration ::
  "string \<Rightarrow> time \<Rightarrow> insert_volunteer_registration \<Rightarrow> store
     \<Rightarrow> volunteer_registration \<times> store" where
  "createVolunteerRegistration uuid now registrationData s =
     (let registration = \<lparr> v_id = uuid,
            v_activityId = iv_activityId registrationData,
            v_volunteerId = iv_volunteerId registrationData,
            v_status = ''pending'',
            v_message = iv_message registrationData,
            v_createdAt = now \<rparr>
      in (registration,
          s\<lparr> volunteerRegistrations :=
               AList.update uuid registration (volunteerRegistrations s) \<rparr>))"

definition getVolunteerRegistrations :: "string \<Rightarrow> store \<Rightarrow> volunteer_registration list" where
  "getVolunteerRegistrations volunteerId s =
     filter (\<lambda>r. v_volunteerId r = volunteerId) (map snd (volunteerRegistrations s))"

subsection \<open>Matches\<close>

definition getMatches :: "string \<Rightarrow> store \<Rightarrow> match list" where
  "getMatches userId s = filter (\<lambda>m. m_userId m = userId) (map snd (matches s))"

text \<open>
  \<^verbatim>\<open>createMatch\<close> copies the three references with \<^verbatim>\<open>?? null\<close> and checks nothing about
  them.
\<close>

definition createMatch :: "string \<Rightarrow> time \<Rightarrow> match_data \<Rightarrow> store \<Rightarrow> match \<times> store" where
  "createMatch uuid now matchData s =
     (let match = \<lparr> m_id = uuid,
            m_donationId = md_donationId matchData,
            m_requestId = md_requestId matchData,
            m_activityId = md_activityId matchData,
            m_userId = md_userId matchData,
            m_score = md_score matchData,
            m_reason = md_reason matchData,
            m_status = Some (case md_status matchData of Some x \<Rightarrow> x | None \<Rightarrow> ''pending''),
            m_createdAt = now \<rparr>
      in (match, s\<lparr> matches := AList.update uuid match (matches s) \<rparr>))"

subsection \<open>Payments\<close>

definition createPayment ::
  "string \<Rightarrow> time \<Rightarrow> insert_payment \<Rightarrow> store \<Rightarrow> payment \<times> store" where
  "createPayment uuid now paymentData s =
     (let payment = \<lparr> p_id = uuid,
            p_payerId = ip_payerId paymentData,
            p_recipientId = ip_recipientId paymentData,
            p_donationId = ip_donationId paymentData,
            p_requestId = ip_requestId paymentData,
            p_amount = ip_amount paymentData,
            p_razorpayPaymentId = ip_razorpayPaymentId paymentData,
            p_razorpayOrderId = ip_razorpayOrderId paymentData,
            p_status = ip_status paymentData,
            p_createdAt = Date now \<rparr>
      in (payment, s\<lparr> payments := AList.update uuid payment (payments s) \<rparr>))"

definition getPayment :: "string \<Rightarrow> store \<Rightarrow> payment option" where
  "getPayment i s = map_of (payments s) i"

definition spread_payment :: "payment \<Rightarrow> partial_payment \<Rightarrow> payment" where
  "spread_payment payment paymentUpdate =
     \<lparr> p_id = spread (p_id payment) (pp_id paymentUpdate),
       p_payerId = spread (p_payerId payment) (pp_payerId paymentUpdate),
       p_recipientId = spread (p_recipientId payment) (pp_recipientId paymentUpdate),
       p_donationId = spread (p_donationId payment) (pp_donationId paymentUpdate),
       p_requestId = spread (p_requestId payment) (pp_requestId paymentUpdate),
       p_amount = spread (p_amount payment) (pp_amount paymentUpdate),
       p_razorpayPaymentId =
         spread (p_razorpayPaymentId payment) (pp_razorpayPaymentId paymentUpdate),
       p_razorpayOrderId =
         spread (p_razorpayOrderId payment) (pp_razorpayOrderId paymentUpdate),
       p_status = spread (p_status payment) (pp_status paymentUpdate),
       p_createdAt = spread (p_createdAt payment) (pp_createdAt paymentUpdate) \<rparr>"

definition updatePayment ::
  "string \<Rightarrow> partial_payment \<Rightarrow> store \<Rightarrow> (error + payment) \<times> store" where
  "updatePayment i paymentUpdate s =
     (case map_of (payments s) i of
        None \<Rightarrow> (Inl (Error ''Payment not found''), s)
      | Some payment \<Rightarrow>
          (let updatedPayment = spread_payment payment paymentUpdate
           in (Inr updatedPayment,
               s\<lparr> payments := AList.update i updatedPayment (payments s) \<rparr>)))"

subsection \<open>Notifications\<close>

text \<open>
  \<^verbatim>\<open>createNotification\<close>: the object literal spreads the caller's data first and then
  sets \<^verbatim>\<open>id\<close>, \<^verbatim>\<open>read: false\<close> and \<^verbatim>\<open>createdAt\<close>, so these three win over whatever the
  caller supplied.
\<close>

definition createNotification ::
  "string \<Rightarrow> time \<Rightarrow> notification_data \<Rightarrow> store \<Rightarrow> notification \<times> store" where
  "createNotification uuid now notificationData s =
     (let notification = \<lparr> n_id = uuid, n_userId = nd_userId notificationData,
            n_read = False, n_createdAt = now,
            n_payload = nd_payload notificationData \<rparr>
      in (notification,
          s\<lparr> notifications := AList.update uuid notification (notifications s) \<rparr>))"

text \<open>
  \<^verbatim>\<open>markNotificationAsRead\<close> returns nothing and has no \<^verbatim>\<open>throw\<close>; an object is always
  truthy, so \<^verbatim>\<open>if (notification)\<close> tests presence.
\<close>

definition markNotificationAsRead :: "string \<Rightarrow> store \<Rightarrow> store" where
  "markNotificationAsRead i s =
     (case map_of (notifications s) i of
        Some notification \<Rightarrow>
          s\<lparr> notifications :=
               AList.update i (notification\<lparr> n_read := True \<rparr>) (notifications s) \<rparr>
      | None \<Rightarrow> s)"

text \<open>
  \<^verbatim>\<open>getNotifications\<close>: the comparator \<^verbatim>\<open>b.createdAt.getTime() - a.createdAt.getTime()\<close>
  orders by creation time, newest first; the creation time of a notification is
  always a valid date.
\<close>

definition getNotifications :: "string \<Rightarrow> store \<Rightarrow> notification list" where
  "getNotifications userId s =
     js_sort (\<lambda>a b. Some (n_createdAt b - n_createdAt a))
       (filter (\<lambda>n. n_userId n = userId) (map snd (notifications s)))"

subsection \<open>Sequences of calls\<close>

text \<open>
  The methods that write to the store, each with the values \<^verbatim>\<open>randomUUID()\<close> and
  \<^verbatim>\<open>new Date()\<close> return during the call. The reading methods leave the store as it
  is and are not listed.
\<close>

datatype op =
    CreateUser string time insert_user
  | UpdateUser string partial_user
  | CreateOrganization string time insert_organization
  | CreateDonation string time string time insert_donation
  | UpdateDonation string partial_donation
  | CreateRequest string time string time insert_request
  | UpdateRequest string partial_request
  | CreateActivity string time string time insert_activity
  | UpdateActivity string partial_activity
  | CreateVolunteerRegistration string time insert_volunteer_registration
  | CreateMatch string time match_data
  | CreateActivityFeedItem string time item_data
  | CreatePayment string time insert_payment
  | UpdatePayment string partial_payment
  | CreateNotification string time notification_data
  | MarkNotificationAsRead string

text \<open>The store after one call; a call that throws leaves the store it returns.\<close>

fun step :: "op \<Rightarrow> store \<Rightarrow> store" where
  "step (CreateUser uuid now d) s = snd (createUser uuid now d s)"
| "step (UpdateUser i p) s = snd (updateUser i p s)"
| "step (CreateOrganization uuid now d) s = snd (createOrganization uuid now d s)"
| "step (CreateDonation uuid now fuuid fnow d) s = snd (createDonation uuid now fuuid fnow d s)"
| "step (UpdateDonation i p) s = snd (updateDonation i p s)"
| "step (CreateRequest uuid now fuuid fnow d) s = snd (createRequest uuid now fuuid fnow d s)"
| "step (UpdateRequest i p) s = snd (updateRequest i p s)"
| "step (CreateActivity uuid now fuuid fnow d) s = snd (createActivity uuid now fuuid fnow d s)"
| "step (UpdateActivity i p) s = snd (updateActivity i p s)"
| "step (CreateVolunteerRegistration uuid now d) s =
     snd (createVolunteerRegistration uuid now d s)"
| "step (CreateMatch uuid now d) s = snd (createMatch uuid now d s)"
| "step (CreateActivityFeedItem uuid now d) s = snd (createActivityFeedItem uuid now d s)"
| "step (CreatePayment uuid now d) s = snd (createPayment uuid now d s)"
| "step (UpdatePayment i p) s = snd (updatePayment i p s)"
| "step (CreateNotification uuid now d) s = snd (createNotification uuid now d s)"
| "step (MarkNotificationAsRead i) s = markNotificationAsRead i s"

text \<open>The store a new \<^verbatim>\<open>MemStorage\<close> is in after a sequence of calls.\<close>

definition run :: "op list \<Rightarrow> store" where
  "run ops = fold step ops empty_store"

subsection \<open>What the properties speak of\<close>

text \<open>The partial update of the call names the \<^verbatim>\<open>id\<close> field.\<close>

fun names_id :: "op \<Rightarrow> bool" where
  "names_id (UpdateUser i p) = (pu_id p \<noteq> None)"
| "names_id (UpdateDonation i p) = (pd_id p \<noteq> None)"
| "names_id (UpdateRequest i p) = (pr_id p \<noteq> None)"
| "names_id (UpdateActivity i p) = (pa_id p \<noteq> None)"
| "names_id (UpdatePayment i p) = (pp_id p \<noteq> None)"
| "names_id _ = False"

text \<open>Every record of a map carries the key it is stored under in its \<^verbatim>\<open>id\<close> field.\<close>

definition keyed :: "('r \<Rightarrow> string) \<Rightarrow> (string \<times> 'r) list \<Rightarrow> bool" where
  "keyed ident al = list_all (\<lambda>kr. ident (snd kr) = fst kr) al"

definition ids_ok :: "store \<Rightarrow> bool" where
  "ids_ok s \<longleftrightarrow>
     keyed u_id (users s) \<and> keyed o_id (organizations s) \<and> keyed d_id (donations s)
     \<and> keyed r_id (requests s) \<and> keyed a_id (activities s)
     \<and> keyed v_id (volunteerRegistrations s) \<and> keyed m_id (matches s)
     \<and> keyed f_id (activityFeed s) \<and> keyed p_id (payments s)
     \<and> keyed n_id (notifications s)"

text \<open>How many of the three references of a match are not \<^verbatim>\<open>null\<close>.\<close>

definition refs_set :: "string option \<Rightarrow> string option \<Rightarrow> string option \<Rightarrow> nat" where
  "refs_set donationId requestId activityId =
     length (filter (\<lambda>x. x \<noteq> None) [donationId, requestId, activityId])"

definition at_most_one_ref :: "match \<Rightarrow> bool" where
  "at_most_one_ref m \<longleftrightarrow> refs_set (m_donationId m) (m_requestId m) (m_activityId m) \<le> 1"

text \<open>A call of \<^verbatim>\<open>createMatch\<close> is given at most one of the three references.\<close>

fun gives_one_ref :: "op \<Rightarrow> bool" where
  "gives_one_ref (CreateMatch uuid now d) =
     (refs_set (md_donationId d) (md_requestId d) (md_activityId d) \<le> 1)"
| "gives_one_ref _ = True"

text \<open>
  The words of the specification for an update: a field the partial update names
  carries the partial's value afterwards, a field it does not name keeps its prior
  value.
\<close>

definition named_or_kept :: "'a option \<Rightarrow> 'a \<Rightarrow> 'a \<Rightarrow> bool" where
  "named_or_kept named prior after \<longleftrightarrow>
     (case named of Some v \<Rightarrow> after = v | None \<Rightarrow> after = prior)"

definition user_merged :: "user \<Rightarrow> partial_user \<Rightarrow> user \<Rightarrow> bool" where
  "user_merged u p u' \<longleftrightarrow>
     named_or_kept (pu_id p) (u_id u) (u_id u')
     \<and> named_or_kept (pu_name p) (u_name u) (u_name u')
     \<and> named_or_kept (pu_email p) (u_email u) (u_email u')
     \<and> named_or_kept (pu_password p) (u_password u) (u_password u')
     \<and> named_or_kept (pu_userType p) (u_userType u) (u_userType u')
     \<and> named_or_kept (pu_phone p) (u_phone u) (u_phone u')
     \<and> named_or_kept (pu_avatar p) (u_avatar u) (u_avatar u')
     \<and> named_or_kept (pu_bio p) (u_bio u) (u_bio u')
     \<and> named_or_kept (pu_location p) (u_location u) (u_location u')
     \<and> named_or_kept (pu_verified p) (u_verified u) (u_verified u')
     \<and> named_or_kept (pu_createdAt p) (u_createdAt u) (u_createdAt u')"

definition donation_merged :: "donation \<Rightarrow> partial_donation \<Rightarrow> donation \<Rightarrow> bool" where
  "donation_merged d p d' \<longleftrightarrow>
     named_or_kept (pd_id p) (d_id d) (d_id d')
     \<and> named_or_kept (pd_donorId p) (d_donorId d) (d_donorId d')
     \<and> named_or_kept (pd_recipientId p) (d_recipientId d) (d_recipientId d')
     \<and> named_or_kept (pd_type p) (d_type d) (d_type d')
     \<and> named_or_kept (pd_title p) (d_title d) (d_title d')
     \<and> named_or_kept (pd_description p) (d_description d) (d_description d')
     \<and> named_or_kept (pd_amount p) (d_amount d) (d_amount d')
     \<and> named_or_kept (pd_quantity p) (d_quantity d) (d_quantity d')
     \<and> named_or_kept (pd_location p) (d_location d) (d_location d')
     \<and> named_or_kept (pd_images p) (d_images d) (d_images d')
     \<and> named_or_kept (pd_status p) (d_status d) (d_status d')
     \<and> named_or_kept (pd_expiryDate p) (d_expiryDate d) (d_expiryDate d')
     \<and> named_or_kept (pd_createdAt p) (d_createdAt d) (d_createdAt d')"

definition request_merged :: "request \<Rightarrow> partial_request \<Rightarrow> request \<Rightarrow> bool" where
  "request_merged r p r' \<longleftrightarrow>
     named_or_kept (pr_id p) (r_id r) (r_id r')
     \<and> named_or_kept (pr_requesterId p) (r_requesterId r) (r_requesterId r')
     \<and> named_or_kept (pr_type p) (r_type r) (r_type r')
     \<and> named_or_kept (pr_title p) (r_title r) (r_title r')
     \<and> named_or_kept (pr_description p) (r_description r) (r_description r')
     \<and> named_or_kept (pr_urgency p) (r_urgency r) (r_urgency r')
     \<and> named_or_kept (pr_targetAmount p) (r_targetAmount r) (r_targetAmount r')
     \<and> named_or_kept (pr_raisedAmount p) (r_raisedAmount r) (r_raisedAmount r')
     \<and> named_or_kept (pr_targetQuantity p) (r_targetQuantity r) (r_targetQuantity r')
     \<and> named_or_kept (pr_receivedQuantity p) (r_receivedQuantity r) (r_receivedQuantity r')
     \<and> named_or_kept (pr_location p) (r_location r) (r_location r')
     \<and> named_or_kept (pr_images p) (r_images r) (r_images r')
     \<and> named_or_kept (pr_status p) (r_status r) (r_status r')
     \<and> named_or_kept (pr_deadline p) (r_deadline r) (r_deadline r')
     \<and> named_or_kept (pr_createdAt p) (r_createdAt r) (r_createdAt r')"

definition activity_merged :: "activity \<Rightarrow> partial_activity \<Rightarrow> activity \<Rightarrow> bool" where
  "activity_merged a p a' \<longleftrightarrow>
     named_or_kept (pa_id p) (a_id a) (a_id a')
     \<and> named_or_kept (pa_organizerId p) (a_organizerId a) (a_organizerId a')
     \<and> named_or_kept (pa_title p) (a_title a) (a_title a')
     \<and> named_or_kept (pa_description p) (a_description a) (a_description a')
     \<and> named_or_kept (pa_location p) (a_location a) (a_location a')
     \<and> named_or_kept (pa_startTime p) (a_startTime a) (a_startTime a')
     \<and> named_or_kept (pa_endTime p) (a_endTime a) (a_endTime a')
     \<and> named_or_kept (pa_maxVolunteers p) (a_maxVolunteers a) (a_maxVolunteers a')
     \<and> named_or_kept (pa_currentVolunteers p) (a_currentVolunteers a) (a_currentVolunteers a')
     \<and> named_or_kept (pa_skills p) (a_skills a) (a_skills a')
     \<and> named_or_kept (pa_status p) (a_status a) (a_status a')
     \<and> named_or_kept (pa_createdAt p) (a_createdAt a) (a_createdAt a')"

definition payment_merged :: "payment \<Rightarrow> partial_payment \<Rightarrow> payment \<Rightarrow> bool" where
  "payment_merged x p x' \<longleftrightarrow>
     named_or_kept (pp_id p) (p_id x) (p_id x')
     \<and> named_or_kept (pp_payerId p) (p_payerId x) (p_payerId x')
     \<and> named_or_kept (pp_recipientId p) (p_recipientId x) (p_recipientId x')
     \<and> named_or_kept (pp_donationId p) (p_donationId x) (p_donationId x')
     \<and> named_or_kept (pp_requestId p) (p_requestId x) (p_requestId x')
     \<and> named_or_kept (pp_amount p) (p_amount x) (p_amount x')
     \<and> named_or_kept (pp_razorpayPaymentId p) (p_razorpayPaymentId x) (p_razorpayPaymentId x')
     \<and> named_or_kept (pp_razorpayOrderId p) (p_razorpayOrderId x) (p_razorpayOrderId x')
     \<and> named_or_kept (pp_status p) (p_status x) (p_status x')
     \<and> named_or_kept (pp_createdAt p) (p_createdAt x) (p_createdAt x')"

text \<open>A list of times runs from the newest to the oldest, equal times allowed.\<close>

definition newest_first :: "time list \<Rightarrow> bool" where
  "newest_first ts = sorted_wrt (\<lambda>a b. b \<le> a) ts"

text \<open>
  What a create call that emits a feed item leaves behind: the item \<open>item\<close> is in the
  feed map under the identifier \<open>fuuid\<close> drawn for it; when that identifier was not yet
  a key of the feed map, the feed map is the old one with this one entry added at the
  end; \<^verbatim>\<open>getActivityFeed\<close> returns the item whenever its limit (50 when the argument is
  left out) is not below the number of feed items; and, the identifier being new, it
  returns the item already when its limit is above the number of feed items that were
  there before and are not older than the item.
\<close>

definition feed_item_stored :: "store \<Rightarrow> store \<Rightarrow> string \<Rightarrow> activity_feed_item \<Rightarrow> bool" where
  "feed_item_stored s s' fuuid item \<longleftrightarrow>
     map_of (activityFeed s') fuuid = Some item
     \<and> (fuuid \<notin> fst ` set (activityFeed s)
          \<longrightarrow> activityFeed s' = activityFeed s @ [(fuuid, item)])
     \<and> (\<forall>arg. int (length (activityFeed s')) \<le> (case arg of None \<Rightarrow> 50 | Some n \<Rightarrow> n)
            \<longrightarrow> item \<in> set (getActivityFeed arg s'))
     \<and> (\<forall>arg. fuuid \<notin> fst ` set (activityFeed s)
            \<and> int (length (filter (\<lambda>old. f_createdAt item \<le> f_createdAt old)
                              (map snd (activityFeed s))))
                < (case arg of None \<Rightarrow> 50 | Some n \<Rightarrow> n)
            \<longrightarrow> item \<in> set (getActivityFeed arg s'))"

text \<open>Every donation of a list has a valid creation date.\<close>

definition valid_dates :: "donation list \<Rightarrow> bool" where
  "valid_dates ds = list_all (\<lambda>d. getTime (d_createdAt d) \<noteq> None) ds"

subsection \<open>Example inputs\<close>

definition ex_user :: insert_user where
  "ex_user = \<lparr> iu_name = ''Ann'', iu_email = ''ann@example.org'', iu_password = ''hash'',
     iu_userType = ''donor'', iu_phone = None, iu_bio = None, iu_location = None \<rparr>"

definition ex_donation :: insert_donation where
  "ex_donation = \<lparr> id_donorId = ''k1'', id_type = ''food'', id_title = ''Rice'',
     id_description = None, id_amount = None, id_quantity = None, id_location = None,
     id_images = None, id_expiryDate = None \<rparr>"

definition ex_request :: insert_request where
  "ex_request = \<lparr> ir_requesterId = ''k1'', ir_type = ''food'', ir_title = ''Meals'',
     ir_description = ''Warm meals'', ir_urgency = None, ir_targetAmount = None,
     ir_targetQuantity = None, ir_location = None, ir_images = None, ir_deadline = None \<rparr>"

definition ex_activity :: insert_activity where
  "ex_activity = \<lparr> ia_organizerId = ''k1'', ia_title = ''Clean-up'',
     ia_description = ''Park clean-up'', ia_location = JStr ''Park'', ia_startTime = Date 100,
     ia_endTime = Date 200, ia_maxVolunteers = None, ia_skills = None \<rparr>"

definition ex_payment :: insert_payment where
  "ex_payment = \<lparr> ip_payerId = ''k1'', ip_recipientId = ''k2'', ip_donationId = None,
     ip_requestId = None, ip_amount = JStr ''10'', ip_razorpayPaymentId = None,
     ip_razorpayOrderId = None, ip_status = ''created'' \<rparr>"

definition ex_notification :: notification_data where
  "ex_notification = \<lparr> nd_userId = ''k1'', nd_read = True,
     nd_payload = [(''title'', JStr ''Hello'')] \<rparr>"




text \<open>Fifty feed items created in the millisecond 5, under fifty identifiers.\<close>

definition crowded_ops :: "op list" where
  "crowded_ops =
     map (\<lambda>c. CreateActivityFeedItem [c] 5
            \<lparr> fd_userId = ''k1'', fd_type = ''donation'', fd_title = ''New donation: Rice'',
              fd_description = [], fd_metadata = [], fd_likes = 0, fd_comments = 0 \<rparr>)
       ''abcdefghijklmnopqrstuvwxyzABCDEFGHIJKLMNOPQRSTUVWX''"

text \<open>A match as the donation route builds it, and one with two references.\<close>

definition ex_match :: match_data where
  "ex_match = \<lparr> md_donationId = Some ''k1'', md_requestId = None, md_activityId = None,
     md_userId = ''k1'', md_score = ''0.9'', md_reason = None, md_status = Some ''pending'' \<rparr>"

definition ex_match_two :: match_data where
  "ex_match_two = \<lparr> md_donationId = Some ''k1'', md_requestId = Some ''k1'',
     md_activityId = None, md_userId = ''k1'', md_score = ''0.9'', md_reason = None,
     md_status = None \<rparr>"

text \<open>The partial updates \<^verbatim>\<open>{}\<close> of each kind.\<close>

definition no_user_update :: partial_user where
  "no_user_update = \<lparr> pu_id = None, pu_name = None, pu_email = None, pu_password = None,
     pu_userType = None, pu_phone = None, pu_avatar = None, pu_bio = None,
     pu_location = None, pu_verified = None, pu_createdAt = None \<rparr>"

definition no_donation_update :: partial_donation where
  "no_donation_update = \<lparr> pd_id = None, pd_donorId = None, pd_recipientId = None,
     pd_type = None, pd_title = None, pd_description = None, pd_amount = None,
     pd_quantity = None, pd_location = None, pd_images = None, pd_status = None,
     pd_expiryDate = None, pd_createdAt = None \<rparr>"

definition no_request_update :: partial_request where
  "no_request_update = \<lparr> pr_id = None, pr_requesterId = None, pr_type = None,
     pr_title = None, pr_description = None, pr_urgency = None, pr_targetAmount = None,
     pr_raisedAmount = None, pr_targetQuantity = None, pr_receivedQuantity = None,
     pr_location = None, pr_images = None, pr_status = None, pr_deadline = None,
     pr_createdAt = None \<rparr>"

definition no_activity_update :: partial_activity where
  "no_activity_update = \<lparr> pa_id = None, pa_organizerId = None, pa_title = None,
     pa_description = None, pa_location = None, pa_startTime = None, pa_endTime = None,
     pa_maxVolunteers = None, pa_currentVolunteers = None, pa_skills = None,
     pa_status = None, pa_createdAt = None \<rparr>"

definition no_payment_update :: partial_payment where
  "no_payment_update = \<lparr> pp_id = None, pp_payerId = None, pp_recipientId = None,
     pp_donationId = None, pp_requestId = None, pp_amount = None,
     pp_razorpayPaymentId = None, pp_razorpayOrderId = None, pp_status = None,
     pp_createdAt = None \<rparr>"

text \<open>
  One record of each kind, every one under the key \<^verbatim>\<open>k1\<close> of its own map, then a
  status update and a mark-as-read.
\<close>

definition example_ops :: "op list" where
  "example_ops =
     [CreateUser ''k1'' 1 ex_user,
      CreateDonation ''k1'' 2 ''f1'' 2 ex_donation,
      CreateRequest ''k1'' 3 ''f2'' 3 ex_request,
      CreateActivity ''k1'' 4 ''f3'' 4 ex_activity,
      CreatePayment ''k1'' 5 ex_payment,
      CreateMatch ''k1'' 6 ex_match,
      CreateNotification ''k1'' 7 ex_notification,
      UpdateDonation ''k1'' (no_donation_update\<lparr> pd_status := Some ''claimed'' \<rparr>),
      MarkNotificationAsRead ''k1'']"

definition example_store :: store where
  "example_store = run example_ops"

section \<open>Auxiliary facts\<close>

subsection \<open>Association lists as maps\<close>

lemma absent_iff: "i \<notin> fst ` set al \<longleftrightarrow> map_of al i = None"
  by (simp add: map_of_eq_None_iff)

lemma keyed_update: "keyed f al \<Longrightarrow> f r = k \<Longrightarrow> keyed f (AList.update k r al)"
  by (induction al) (auto simp: keyed_def)

lemma keyed_lookup: "keyed f al \<Longrightarrow> map_of al k = Some r \<Longrightarrow> f r = k"
  by (induction al) (auto simp: keyed_def split: if_splits)

lemma keyed_replace:
  "keyed f al \<Longrightarrow> map_of al k = Some r \<Longrightarrow> f r' = f r \<Longrightarrow> keyed f (AList.update k r' al)"
  using keyed_lookup [of f al k r] by (simp add: keyed_update)

lemma update_fresh: "k \<notin> fst ` set al \<Longrightarrow> AList.update k v al = al @ [(k, v)]"
  by (induction al) auto

lemma update_value_mem: "v \<in> snd ` set (AList.update k v al)"
  by (induction al) auto

lemma list_all_update:
  "list_all P (map snd al) \<Longrightarrow> P v \<Longrightarrow> list_all P (map snd (AList.update k v al))"
  by (induction al) auto

subsection \<open>Slicing and sorting\<close>

lemma slice0_all: "int (length xs) \<le> limit \<Longrightarrow> slice0 limit xs = xs"
  by (simp add: slice0_def Let_def)

lemma insert_by_insort:
  "\<forall>b\<in>set ys. cmp x b \<le> 0 \<longleftrightarrow> k x \<le> k b \<Longrightarrow> insert_by cmp x ys = insort_key k x ys"
  by (induction ys) simp_all

lemma foldr_insert_by:
  "\<forall>a\<in>set xs. \<forall>b\<in>set xs. cmp a b \<le> 0 \<longleftrightarrow> k a \<le> k b
   \<Longrightarrow> foldr (insert_by cmp) xs [] = sort_key k xs"
proof (induction xs)
  case Nil
  then show ?case by simp
next
  case (Cons x xs)
  then have "foldr (insert_by cmp) xs [] = sort_key k xs" by simp
  moreover have "insert_by cmp x (sort_key k xs) = insort_key k x (sort_key k xs)"
    using Cons.prems by (intro insert_by_insort) simp
  ultimately show ?case by simp
qed

lemma js_sort_times: "js_sort (\<lambda>a b. Some (c b - c a)) xs = sort_key (\<lambda>x. - c x) xs"
proof -
  have "never_NaN (\<lambda>a b. Some (c b - c a)) xs"
    by (simp add: never_NaN_def list_all_iff)
  then show ?thesis
    by (simp add: js_sort_def foldr_insert_by [where k = "\<lambda>x. - c x"])
qed

lemma js_sort_dates:
  assumes "\<forall>x\<in>set xs. c x = Date (k x)"
  shows "js_sort (\<lambda>a b. js_minus (getTime (c b)) (getTime (c a))) xs
       = sort_key (\<lambda>x. - k x) xs"
proof -
  let ?f = "\<lambda>a b. js_minus (getTime (c b)) (getTime (c a))"
  have eq: "\<forall>a\<in>set xs. \<forall>b\<in>set xs. ?f a b = Some (k b - k a)"
    using assms by (simp add: js_minus_def)
  then have "never_NaN ?f xs"
    by (simp add: never_NaN_def list_all_iff)
  moreover have "foldr (insert_by (\<lambda>a b. case ?f a b of Some v \<Rightarrow> v | None \<Rightarrow> 0)) xs []
      = sort_key (\<lambda>x. - k x) xs"
    using eq by (intro foldr_insert_by) simp
  ultimately show ?thesis by (simp add: js_sort_def)
qed

lemma insort_key_before:
  "f y \<le> f x \<Longrightarrow> insort_key f y (as @ x # bs) = insort_key f y as @ x # bs"
  by (induction as) simp_all

lemma insort_key_after:
  "\<forall>a\<in>set as. f a < f y \<Longrightarrow> insort_key f y (as @ cs) = as @ insort_key f y cs"
  by (induction as) auto

text \<open>Where the stable sort puts an element that was last in the list.\<close>

lemma sort_key_snoc:
  "sort_key f (ys @ [x])
     = filter (\<lambda>y. f y \<le> f x) (sort_key f ys) @ x # filter (\<lambda>y. f x < f y) (sort_key f ys)"
proof (induction ys)
  case Nil
  show ?case by simp
next
  case (Cons y ys)
  let ?S = "sort_key f ys"
  let ?A = "filter (\<lambda>y. f y \<le> f x) ?S"
  let ?B = "filter (\<lambda>y. f x < f y) ?S"
  have sorted: "sorted (map f ?S)" by simp
  have step: "sort_key f ((y # ys) @ [x]) = insort_key f y (?A @ x # ?B)"
    using Cons.IH by simp
  show ?case
  proof (cases "f y \<le> f x")
    case True
    have "filter (\<lambda>y. f y \<le> f x) (insort_key f y ?S) = insort_key f y ?A"
      using sorted True by (simp add: filter_insort)
    moreover have "filter (\<lambda>y. f x < f y) (insort_key f y ?S) = ?B"
      using True by (simp add: filter_insort_triv)
    moreover have "insort_key f y (?A @ x # ?B) = insort_key f y ?A @ x # ?B"
      using True by (rule insort_key_before)
    ultimately show ?thesis using step by simp
  next
    case False
    have "filter (\<lambda>y. f y \<le> f x) (insort_key f y ?S) = ?A"
      using False by (simp add: filter_insort_triv)
    moreover have "filter (\<lambda>y. f x < f y) (insort_key f y ?S) = insort_key f y ?B"
      using sorted False by (simp add: filter_insort)
    moreover have "insort_key f y (?A @ x # ?B) = ?A @ x # insort_key f y ?B"
    proof -
      have "\<forall>a\<in>set (?A @ [x]). f a < f y" using False by auto
      then have "insort_key f y ((?A @ [x]) @ ?B) = (?A @ [x]) @ insort_key f y ?B"
        by (rule insort_key_after)
      then show ?thesis by simp
    qed
    ultimately show ?thesis using step by simp
  qed
qed

lemma newer_count:
  "length (filter (\<lambda>y. - c y \<le> - c x) (sort_key (\<lambda>x. - c x) ys))
     = length (filter (\<lambda>y. c x \<le> (c y :: int)) ys)"
  by (simp add: filter_sort)

lemma take_mem: "length as < n \<Longrightarrow> x \<in> set (take n (as @ x # bs))"
  by (cases "n - length as") simp_all

lemma newest_first_sort: "newest_first (map c (sort_key (\<lambda>x. - c x) xs))"
proof -
  have "sorted (map (\<lambda>x. - c x) (sort_key (\<lambda>x. - c x) xs))"
    by (rule sorted_sort_key)
  then show ?thesis
    by (simp add: newest_first_def sorted_map sorted_wrt_map)
qed

lemma ties_keep_order:
  "filter (\<lambda>x. c x = t) (sort_key (\<lambda>x. - c x) xs) = filter (\<lambda>x. c x = (t::int)) xs"
  using sort_key_stable [of "\<lambda>x. - c x" "- t" xs] by simp

subsection \<open>Updates\<close>

lemma spread_None: "spread old None = old"
  by (simp add: spread_def)

lemma named_or_kept_spread: "named_or_kept n prior (spread prior n)"
  by (simp add: named_or_kept_def spread_def split: option.split)

lemma user_merged_spread: "user_merged u p (spread_user u p)"
  by (simp add: user_merged_def spread_user_def named_or_kept_spread)

lemma donation_merged_spread: "donation_merged d p (spread_donation d p)"
  by (simp add: donation_merged_def spread_donation_def named_or_kept_spread)

lemma request_merged_spread: "request_merged r p (spread_request r p)"
  by (simp add: request_merged_def spread_request_def named_or_kept_spread)

lemma activity_merged_spread: "activity_merged a p (spread_activity a p)"
  by (simp add: activity_merged_def spread_activity_def named_or_kept_spread)

lemma payment_merged_spread: "payment_merged x p (spread_payment x p)"
  by (simp add: payment_merged_def spread_payment_def named_or_kept_spread)

subsection \<open>The identifier invariant, call by call\<close>

lemma ids_ok_createUser: "ids_ok s \<Longrightarrow> ids_ok (snd (createUser uuid now d s))"
  by (simp add: createUser_def Let_def ids_ok_def keyed_update)

lemma ids_ok_createOrganization:
  "ids_ok s \<Longrightarrow> ids_ok (snd (createOrganization uuid now d s))"
  by (simp add: createOrganization_def Let_def ids_ok_def keyed_update)

lemma ids_ok_createDonation:
  "ids_ok s \<Longrightarrow> ids_ok (snd (createDonation uuid now fuuid fnow d s))"
  by (simp add: createDonation_def createActivityFeedItem_def Let_def ids_ok_def keyed_update)

lemma ids_ok_createRequest:
  "ids_ok s \<Longrightarrow> ids_ok (snd (createRequest uuid now fuuid fnow d s))"
  by (simp add: createRequest_def createActivityFeedItem_def Let_def ids_ok_def keyed_update)

lemma ids_ok_createActivity:
  "ids_ok s \<Longrightarrow> ids_ok (snd (createActivity uuid now fuuid fnow d s))"
  by (simp add: createActivity_def createActivityFeedItem_def Let_def ids_ok_def keyed_update)

lemma ids_ok_createVolunteerRegistration:
  "ids_ok s \<Longrightarrow> ids_ok (snd (createVolunteerRegistration uuid now d s))"
  by (simp add: createVolunteerRegistration_def Let_def ids_ok_def keyed_update)

lemma ids_ok_createMatch: "ids_ok s \<Longrightarrow> ids_ok (snd (createMatch uuid now d s))"
  by (simp add: createMatch_def Let_def ids_ok_def keyed_update)

lemma ids_ok_createActivityFeedItem:
  "ids_ok s \<Longrightarrow> ids_ok (snd (createActivityFeedItem uuid now d s))"
  by (simp add: createActivityFeedItem_def Let_def ids_ok_def keyed_update)

lemma ids_ok_createPayment: "ids_ok s \<Longrightarrow> ids_ok (snd (createPayment uuid now d s))"
  by (simp add: createPayment_def Let_def ids_ok_def keyed_update)

lemma ids_ok_createNotification:
  "ids_ok s \<Longrightarrow> ids_ok (snd (createNotification uuid now d s))"
  by (simp add: createNotification_def Let_def ids_ok_def keyed_update)

lemma ids_ok_updateUser:
  assumes ok: "ids_ok s" and n: "pu_id p = None"
  shows "ids_ok (snd (updateUser i p s))"
proof (cases "map_of (users s) i")
  case None
  then show ?thesis using ok by (simp add: updateUser_def)
next
  case (Some u)
  have "u_id (spread_user u p) = u_id u" using n by (simp add: spread_user_def spread_None)
  with ok Some have "keyed u_id (AList.update i (spread_user u p) (users s))"
    by (simp add: ids_ok_def keyed_replace)
  then show ?thesis using ok Some by (simp add: updateUser_def Let_def ids_ok_def)
qed

lemma ids_ok_updateDonation:
  assumes ok: "ids_ok s" and n: "pd_id p = None"
  shows "ids_ok (snd (updateDonation i p s))"
proof (cases "map_of (donations s) i")
  case None
  then show ?thesis using ok by (simp add: updateDonation_def)
next
  case (Some u)
  have "d_id (spread_donation u p) = d_id u" using n by (simp add: spread_donation_def spread_None)
  with ok Some have "keyed d_id (AList.update i (spread_donation u p) (donations s))"
    by (simp add: ids_ok_def keyed_replace)
  then show ?thesis using ok Some by (simp add: updateDonation_def Let_def ids_ok_def)
qed

lemma ids_ok_updateRequest:
  assumes ok: "ids_ok s" and n: "pr_id p = None"
  shows "ids_ok (snd (updateRequest i p s))"
proof (cases "map_of (requests s) i")
  case None
  then show ?thesis using ok by (simp add: updateRequest_def)
next
  case (Some u)
  have "r_id (spread_request u p) = r_id u" using n by (simp add: spread_request_def spread_None)
  with ok Some have "keyed r_id (AList.update i (spread_request u p) (requests s))"
    by (simp add: ids_ok_def keyed_replace)
  then show ?thesis using ok Some by (simp add: updateRequest_def Let_def ids_ok_def)
qed

lemma ids_ok_updateActivity:
  assumes ok: "ids_ok s" and n: "pa_id p = None"
  shows "ids_ok (snd (updateActivity i p s))"
proof (cases "map_of (activities s) i")
  case None
  then show ?thesis using ok by (simp add: updateActivity_def)
next
  case (Some u)
  have "a_id (spread_activity u p) = a_id u" using n by (simp add: spread_activity_def spread_None)
  with ok Some have "keyed a_id (AList.update i (spread_activity u p) (activities s))"
    by (simp add: ids_ok_def keyed_replace)
  then show ?thesis using ok Some by (simp add: updateActivity_def Let_def ids_ok_def)
qed

lemma ids_ok_updatePayment:
  assumes ok: "ids_ok s" and n: "pp_id p = None"
  shows "ids_ok (snd (updatePayment i p s))"
proof (cases "map_of (payments s) i")
  case None
  then show ?thesis using ok by (simp add: updatePayment_def)
next
  case (Some u)
  have "p_id (spread_payment u p) = p_id u" using n by (simp add: spread_payment_def spread_None)
  with ok Some have "keyed p_id (AList.update i (spread_payment u p) (payments s))"
    by (simp add: ids_ok_def keyed_replace)
  then show ?thesis using ok Some by (simp add: updatePayment_def Let_def ids_ok_def)
qed

lemma ids_ok_markNotificationAsRead: "ids_ok s \<Longrightarrow> ids_ok (markNotificationAsRead i s)"
proof (cases "map_of (notifications s) i")
  case None
  assume "ids_ok s"
  then show ?thesis using None by (simp add: markNotificationAsRead_def)
next
  case (Some n)
  assume ok: "ids_ok s"
  have "n_id (n\<lparr> n_read := True \<rparr>) = n_id n" by simp
  with ok Some have "keyed n_id (AList.update i (n\<lparr> n_read := True \<rparr>) (notifications s))"
    unfolding ids_ok_def by (blast intro: keyed_replace)
  then show ?thesis using ok Some
    by (simp add: markNotificationAsRead_def ids_ok_def)
qed

lemma ids_ok_step: "ids_ok s \<Longrightarrow> \<not> names_id x \<Longrightarrow> ids_ok (step x s)"
  by (cases x)
    (simp_all add: ids_ok_createUser ids_ok_createOrganization ids_ok_createDonation
      ids_ok_createRequest ids_ok_createActivity ids_ok_createVolunteerRegistration
      ids_ok_createMatch ids_ok_createActivityFeedItem ids_ok_createPayment
      ids_ok_createNotification ids_ok_updateUser ids_ok_updateDonation ids_ok_updateRequest
      ids_ok_updateActivity ids_ok_updatePayment ids_ok_markNotificationAsRead)

lemma ids_ok_fold:
  "ids_ok s \<Longrightarrow> \<forall>x\<in>set ops. \<not> names_id x \<Longrightarrow> ids_ok (fold step ops s)"
  by (induction ops arbitrary: s) (simp_all add: ids_ok_step)

lemma ids_ok_empty: "ids_ok empty_store"
  by (simp add: ids_ok_def empty_store_def keyed_def)

lemma matches_step:
  "matches (step x s) =
     (case x of CreateMatch uuid now d \<Rightarrow>
         AList.update uuid (fst (createMatch uuid now d s)) (matches s)
      | _ \<Rightarrow> matches s)"
  by (cases x)
    (simp_all add: createUser_def updateUser_def createOrganization_def createDonation_def
      updateDonation_def createRequest_def updateRequest_def createActivity_def
      updateActivity_def createVolunteerRegistration_def createMatch_def
      createActivityFeedItem_def createPayment_def updatePayment_def createNotification_def
      markNotificationAsRead_def Let_def split: option.split)

lemma createMatch_refs:
  "at_most_one_ref (fst (createMatch uuid now d s))
   \<longleftrightarrow> refs_set (md_donationId d) (md_requestId d) (md_activityId d) \<le> 1"
  by (simp add: createMatch_def Let_def at_most_one_ref_def)

lemma matches_ok_step:
  "list_all at_most_one_ref (map snd (matches s)) \<Longrightarrow> gives_one_ref x
   \<Longrightarrow> list_all at_most_one_ref (map snd (matches (step x s)))"
  by (cases x) (simp_all add: matches_step list_all_update createMatch_refs del: step.simps)

lemma matches_ok_fold:
  "list_all at_most_one_ref (map snd (matches s)) \<Longrightarrow> \<forall>x\<in>set ops. gives_one_ref x
   \<Longrightarrow> list_all at_most_one_ref (map snd (matches (fold step ops s)))"
  by (induction ops arbitrary: s) (simp_all add: matches_ok_step del: step.simps)


subsection \<open>Feed items stored by the create operations\<close>

lemma getActivityFeed_all:
  "int (length (activityFeed s)) \<le> (case arg of None \<Rightarrow> 50 | Some n \<Rightarrow> n)
   \<Longrightarrow> set (getActivityFeed arg s) = snd ` set (activityFeed s)"
  by (simp add: getActivityFeed_def Let_def slice0_all js_sort_times)

lemma getActivityFeed_newest:
  assumes "int (length (filter (\<lambda>old. f_createdAt item \<le> f_createdAt old) (map snd al)))
      < (case arg of None \<Rightarrow> 50 | Some n \<Rightarrow> n)"
    and "activityFeed s' = al @ [(fuuid, item)]"
  shows "item \<in> set (getActivityFeed arg s')"
proof -
  let ?limit = "case arg of None \<Rightarrow> 50 | Some n \<Rightarrow> n"
  let ?f = "\<lambda>i. - f_createdAt i"
  let ?S = "sort_key ?f (map snd al)"
  let ?A = "filter (\<lambda>y. ?f y \<le> ?f item) ?S"
  let ?B = "filter (\<lambda>y. ?f item < ?f y) ?S"
  have sorted: "js_sort (\<lambda>a b. Some (f_createdAt b - f_createdAt a)) (map snd (activityFeed s'))
      = ?A @ item # ?B"
    using sort_key_snoc [of ?f "map snd al" item] by (simp add: js_sort_times assms(2))
  have "length ?A = length (filter (\<lambda>old. f_createdAt item \<le> f_createdAt old) (map snd al))"
    by (rule newer_count)
  with assms(1) have small: "int (length ?A) < ?limit" by simp
  then have "0 \<le> ?limit" by linarith
  moreover have "length ?A < length (?A @ item # ?B)" by simp
  ultimately have "length ?A < nat (min ?limit (int (length (?A @ item # ?B))))"
    using small by linarith
  then have "item \<in> set (take (nat (min ?limit (int (length (?A @ item # ?B))))) (?A @ item # ?B))"
    by (rule take_mem)
  then have "item \<in> set (slice0 ?limit (?A @ item # ?B))"
    using \<open>0 \<le> ?limit\<close> by (simp add: slice0_def Let_def)
  then show ?thesis
    unfolding getActivityFeed_def Let_def sorted .
qed

lemma feed_item_stored_update:
  assumes "activityFeed s' = AList.update fuuid item (activityFeed s)"
  shows "feed_item_stored s s' fuuid item"
proof -
  have 1: "map_of (activityFeed s') fuuid = Some item"
    by (simp add: assms update_conv')
  have 2: "fuuid \<notin> fst ` set (activityFeed s)
      \<longrightarrow> activityFeed s' = activityFeed s @ [(fuuid, item)]"
    by (simp add: assms update_fresh)
  have 3: "\<forall>arg. int (length (activityFeed s')) \<le> (case arg of None \<Rightarrow> 50 | Some n \<Rightarrow> n)
      \<longrightarrow> item \<in> set (getActivityFeed arg s')"
    by (simp add: getActivityFeed_all assms update_value_mem)
  have 4: "\<forall>arg. fuuid \<notin> fst ` set (activityFeed s)
      \<and> int (length (filter (\<lambda>old. f_createdAt item \<le> f_createdAt old)
                        (map snd (activityFeed s))))
          < (case arg of None \<Rightarrow> 50 | Some n \<Rightarrow> n)
      \<longrightarrow> item \<in> set (getActivityFeed arg s')"
    using 2 by (blast intro: getActivityFeed_newest)
  from 1 2 3 4 show ?thesis unfolding feed_item_stored_def by blast
qed

lemma createDonation_feed:
  assumes "createDonation uuid now fuuid fnow donationData s = (donation, sd)"
  shows "\<exists>item. feed_item_stored s sd fuuid item \<and> f_type item = ''donation''
           \<and> map_of (f_metadata item) ''donationId'' = Some (JStr (d_id donation))
           \<and> map_of (f_metadata item) ''type'' = Some (JStr (d_type donation))"
proof -
  let ?item = "\<lparr> f_id = fuuid, f_userId = id_donorId donationData, f_type = ''donation'',
      f_title = ''New donation: '' @ id_title donationData,
      f_description = (if truthy (id_description donationData)
          then (case id_description donationData of Some x \<Rightarrow> x | None \<Rightarrow> []) else []),
      f_metadata = [(''donationId'', JStr uuid), (''type'', JStr (id_type donationData))],
      f_likes = 0, f_comments = 0, f_createdAt = fnow \<rparr>"
  from assms have feed: "activityFeed sd = AList.update fuuid ?item (activityFeed s)"
    and d: "d_id donation = uuid" "d_type donation = id_type donationData"
    by (auto simp: createDonation_def createActivityFeedItem_def Let_def)
  have "feed_item_stored s sd fuuid ?item" using feed by (rule feed_item_stored_update)
  then show ?thesis using d by (intro exI[of _ ?item]) simp
qed

lemma createRequest_feed:
  assumes "createRequest uuid now fuuid fnow requestData s = (request, sr)"
  shows "\<exists>item u. feed_item_stored s sr fuuid item \<and> f_type item = ''request''
           \<and> map_of (f_metadata item) ''requestId'' = Some (JStr (r_id request))
           \<and> r_urgency request = Some u
           \<and> map_of (f_metadata item) ''urgency'' = Some (JStr u)"
proof -
  let ?u = "case ir_urgency requestData of Some u \<Rightarrow> u | None \<Rightarrow> ''medium''"
  let ?item = "\<lparr> f_id = fuuid, f_userId = ir_requesterId requestData, f_type = ''request'',
      f_title = ''New request: '' @ ir_title requestData,
      f_description = ir_description requestData,
      f_metadata = [(''requestId'', JStr uuid), (''urgency'', JStr ?u)],
      f_likes = 0, f_comments = 0, f_createdAt = fnow \<rparr>"
  from assms have feed: "activityFeed sr = AList.update fuuid ?item (activityFeed s)"
    and d: "r_id request = uuid" "r_urgency request = Some ?u"
    by (auto simp: createRequest_def createActivityFeedItem_def Let_def)
  have "feed_item_stored s sr fuuid ?item" using feed by (rule feed_item_stored_update)
  then show ?thesis using d by (intro exI[of _ ?item] exI[of _ ?u]) simp
qed

lemma createActivity_feed:
  assumes "createActivity uuid now fuuid fnow activityData s = (activity, sa)"
  shows "\<exists>item. feed_item_stored s sa fuuid item \<and> f_type item = ''volunteer''
           \<and> map_of (f_metadata item) ''activityId'' = Some (JStr (a_id activity))
           \<and> map_of (f_metadata item) ''location'' = Some (a_location activity)"
proof -
  let ?item = "\<lparr> f_id = fuuid, f_userId = ia_organizerId activityData, f_type = ''volunteer'',
      f_title = ''New volunteer opportunity: '' @ ia_title activityData,
      f_description = ia_description activityData,
      f_metadata = [(''activityId'', JStr uuid), (''location'', ia_location activityData)],
      f_likes = 0, f_comments = 0, f_createdAt = fnow \<rparr>"
  from assms have feed: "activityFeed sa = AList.update fuuid ?item (activityFeed s)"
    and d: "a_id activity = uuid" "a_location activity = ia_location activityData"
    by (auto simp: createActivity_def createActivityFeedItem_def Let_def)
  have "feed_item_stored s sa fuuid ?item" using feed by (rule feed_item_stored_update)
  then show ?thesis using d by (intro exI[of _ ?item]) simp
qed

lemma other_creates_feed:
  "activityFeed (snd (createUser uuid now iu s)) = activityFeed s"
  "activityFeed (snd (createOrganization uuid now io s)) = activityFeed s"
  "activityFeed (snd (createVolunteerRegistration uuid now iv s)) = activityFeed s"
  "activityFeed (snd (createMatch uuid now md s)) = activityFeed s"
  "activityFeed (snd (createPayment uuid now ip s)) = activityFeed s"
  "activityFeed (snd (createNotification uuid now nd s)) = activityFeed s"
  by (simp_all add: createUser_def createOrganization_def createVolunteerRegistration_def
      createMatch_def createPayment_def createNotification_def Let_def)

subsection \<open>Listing donations\<close>

lemma getDonations_typed:
  "t \<noteq> [] \<Longrightarrow> getDonations (Some \<lparr> df_type = Some t, df_location = loc \<rparr>) s
     = js_sort (\<lambda>a b. js_minus (getTime (d_createdAt b)) (getTime (d_createdAt a)))
         (filter (\<lambda>d. d_type d = t) (map snd (donations s)))"
  by (simp add: getDonations_def truthy_def Let_def)

lemma getDonations_untyped:
  "getDonations None s
     = js_sort (\<lambda>a b. js_minus (getTime (d_createdAt b)) (getTime (d_createdAt a)))
         (map snd (donations s))"
  "getDonations (Some \<lparr> df_type = None, df_location = loc \<rparr>) s = getDonations None s"
  "getDonations (Some \<lparr> df_type = Some [], df_location = loc \<rparr>) s = getDonations None s"
  by (simp_all add: getDonations_def truthy_def Let_def)

text \<open>
  The sort of \<^verbatim>\<open>getDonations\<close> on donations with valid creation dates: a permutation,
  newest first, donations of the same creation date in their former order.
\<close>

lemma sorted_donations:
  fixes ds :: "donation list"
  defines "res \<equiv> js_sort (\<lambda>a b. js_minus (getTime (d_createdAt b)) (getTime (d_createdAt a))) ds"
  assumes "valid_dates ds"
  shows "mset res = mset ds
    \<and> (\<exists>ts. map d_createdAt res = map Date ts \<and> newest_first ts)
    \<and> (\<forall>c. filter (\<lambda>d. d_createdAt d = c) res = filter (\<lambda>d. d_createdAt d = c) ds)"
proof -
  let ?k = "\<lambda>d. case d_createdAt d of Date t \<Rightarrow> t | Invalid_Date \<Rightarrow> 0"
  have valid: "\<forall>d\<in>set ds. d_createdAt d = Date (?k d)"
  proof
    fix d assume "d \<in> set ds"
    with assms(2) have "getTime (d_createdAt d) \<noteq> None"
      by (simp add: valid_dates_def list_all_iff)
    then show "d_createdAt d = Date (?k d)" by (cases "d_createdAt d") simp_all
  qed
  have res: "res = sort_key (\<lambda>d. - ?k d) ds"
    unfolding res_def using valid by (rule js_sort_dates)
  have perm: "mset res = mset ds" by (simp add: res)
  have "map d_createdAt res = map Date (map ?k res)"
    using valid by (simp add: res)
  moreover have "newest_first (map ?k res)"
    unfolding res by (rule newest_first_sort)
  ultimately have order: "\<exists>ts. map d_createdAt res = map Date ts \<and> newest_first ts"
    by blast
  have ties: "filter (\<lambda>d. d_createdAt d = c) res = filter (\<lambda>d. d_createdAt d = c) ds" for c
  proof (cases c)
    case (Date t)
    have "filter (\<lambda>d. d_createdAt d = c) res = filter (\<lambda>d. ?k d = t) res"
      using valid Date by (intro filter_cong) (auto simp: res)
    also have "\<dots> = filter (\<lambda>d. ?k d = t) ds"
      unfolding res by (rule ties_keep_order)
    also have "\<dots> = filter (\<lambda>d. d_createdAt d = c) ds"
      using valid Date by (intro filter_cong) auto
    finally show ?thesis .
  next
    case Invalid_Date
    have "filter (\<lambda>d. d_createdAt d = c) res = []"
      using valid Invalid_Date by (auto simp: res filter_empty_conv)
    moreover have "filter (\<lambda>d. d_createdAt d = c) ds = []"
      using valid Invalid_Date by (auto simp: filter_empty_conv)
    ultimately show ?thesis by simp
  qed
  from perm order ties show ?thesis by blast
qed

subsection \<open>Organizations near a point\<close>





subsection \<open>The example store\<close>

lemmas example_defs = example_store_def example_ops_def run_def empty_store_def
  ex_user_def ex_donation_def ex_request_def ex_activity_def ex_payment_def ex_match_def
  ex_notification_def no_donation_update_def

lemmas call_defs = createUser_def createDonation_def createRequest_def
  createActivity_def createPayment_def createMatch_def createNotification_def
  updateDonation_def markNotificationAsRead_def createActivityFeedItem_def Let_def

lemma example_keys:
  "map fst (users example_store) = [''k1'']"
  "map fst (donations example_store) = [''k1'']"
  "map fst (requests example_store) = [''k1'']"
  "map fst (activities example_store) = [''k1'']"
  "map fst (payments example_store) = [''k1'']"
  "map fst (notifications example_store) = [''k1'']"
  by (simp_all add: example_defs call_defs)

lemma example_key_sets:
  "fst ` set (users example_store) = {''k1''}"
  "fst ` set (donations example_store) = {''k1''}"
  "fst ` set (requests example_store) = {''k1''}"
  "fst ` set (activities example_store) = {''k1''}"
  "fst ` set (payments example_store) = {''k1''}"
  "fst ` set (notifications example_store) = {''k1''}"
  by (simp_all only: set_map [symmetric] example_keys) simp_all

lemma example_present:
  "\<exists>u. map_of (users example_store) ''k1'' = Some u"
  "\<exists>d. map_of (donations example_store) ''k1'' = Some d"
  "\<exists>r. map_of (requests example_store) ''k1'' = Some r"
  "\<exists>a. map_of (activities example_store) ''k1'' = Some a"
  "\<exists>p. map_of (payments example_store) ''k1'' = Some p"
  "\<exists>n. map_of (notifications example_store) ''k1'' = Some n"
  using example_key_sets by (simp_all add: absent_iff [symmetric, simplified] flip: not_None_eq)

lemma crowded_feed:
  "activityFeed (run crowded_ops) =
     map (\<lambda>c. ([c], \<lparr> f_id = [c], f_userId = ''k1'', f_type = ''donation'',
            f_title = ''New donation: Rice'', f_description = [],
            f_metadata = [], f_likes = 0, f_comments = 0, f_createdAt = 5 \<rparr>))
       ''abcdefghijklmnopqrstuvwxyzABCDEFGHIJKLMNOPQRSTUVWX''"
  by (simp add: crowded_ops_def run_def createActivityFeedItem_def Let_def empty_store_def)

section \<open>Properties\<close>

subsection \<open>Feed items\<close>

text \<open>
  C1, as the code has it. Each of \<^verbatim>\<open>createDonation\<close>, \<^verbatim>\<open>createRequest\<close> and
  \<^verbatim>\<open>createActivity\<close> stores one new feed item before it returns. Its type is
  \<^verbatim>\<open>donation\<close>, \<^verbatim>\<open>request\<close> or \<^verbatim>\<open>volunteer\<close>; its metadata holds the identifier of the
  record just created and the record's type, urgency or location; it is in the feed
  map right after the call, as the one entry added when \<^verbatim>\<open>randomUUID()\<close> returns an
  identifier that is not in use. \<^verbatim>\<open>getActivityFeed\<close> returns it when the limit (an
  integer, 50 by default) is not below the number of feed items, and also when the limit is above the
  number of earlier feed items that are not older than it; \<^verbatim>\<open>getActivityFeed\<close> keeps
  the newest items only, as many as the limit (\<open>feed_item_stored\<close>). The create
  operations of the other kinds of entity leave the feed as it is; items enter the feed
  only through \<^verbatim>\<open>createActivityFeedItem\<close>, which the three call.
\<close>

theorem create_emits_feed_item:
  assumes "createDonation uuid now fuuid fnow donationData s = (donation, sd)"
    and "createRequest uuid now fuuid fnow requestData s = (request, sr)"
    and "createActivity uuid now fuuid fnow activityData s = (activity, sa)"
  shows "(\<exists>item. feed_item_stored s sd fuuid item \<and> f_type item = ''donation''
            \<and> map_of (f_metadata item) ''donationId'' = Some (JStr (d_id donation))
            \<and> map_of (f_metadata item) ''type'' = Some (JStr (d_type donation)))
     \<and> (\<exists>item u. feed_item_stored s sr fuuid item \<and> f_type item = ''request''
            \<and> map_of (f_metadata item) ''requestId'' = Some (JStr (r_id request))
            \<and> r_urgency request = Some u
            \<and> map_of (f_metadata item) ''urgency'' = Some (JStr u))
     \<and> (\<exists>item. feed_item_stored s sa fuuid item \<and> f_type item = ''volunteer''
            \<and> map_of (f_metadata item) ''activityId'' = Some (JStr (a_id activity))
            \<and> map_of (f_metadata item) ''location'' = Some (a_location activity))
     \<and> d_id donation = uuid \<and> r_id request = uuid \<and> a_id activity = uuid
     \<and> activityFeed (snd (createUser uuid now insertUser s)) = activityFeed s
     \<and> activityFeed (snd (createOrganization uuid now orgData s)) = activityFeed s
     \<and> activityFeed (snd (createVolunteerRegistration uuid now registrationData s))
         = activityFeed s
     \<and> activityFeed (snd (createMatch uuid now matchData s)) = activityFeed s
     \<and> activityFeed (snd (createPayment uuid now paymentData s)) = activityFeed s
     \<and> activityFeed (snd (createNotification uuid now notificationData s)) = activityFeed s"
proof -
  have ids: "d_id donation = uuid" "r_id request = uuid" "a_id activity = uuid"
    using assms by (auto simp: createDonation_def createRequest_def createActivity_def Let_def)
  show ?thesis
    using createDonation_feed [OF assms(1)] createRequest_feed [OF assms(2)]
      createActivity_feed [OF assms(3)] ids
    by (simp only: other_creates_feed simp_thms)
qed

text \<open>
  C1 at work: a donation, a request and an activity created in a new store, with the
  feed identifier \<^verbatim>\<open>f1\<close> unused and the default limit of 50 above the feed's size.
\<close>

theorem create_emits_feed_item_witness:
  "''f1'' \<notin> fst ` set (activityFeed empty_store)
   \<and> (\<exists>item. activityFeed (snd (createDonation ''k1'' 1 ''f1'' 2 ex_donation empty_store))
                = activityFeed empty_store @ [(''f1'', item)]
          \<and> item \<in> set (getActivityFeed None
                (snd (createDonation ''k1'' 1 ''f1'' 2 ex_donation empty_store)))
          \<and> item \<in> set (getActivityFeed (Some 1)
                (snd (createDonation ''k1'' 1 ''f1'' 2 ex_donation empty_store)))
          \<and> f_type item = ''donation''
          \<and> map_of (f_metadata item) ''donationId'' = Some (JStr ''k1'')
          \<and> map_of (f_metadata item) ''type'' = Some (JStr ''food''))
   \<and> (\<exists>item. feed_item_stored empty_store
                (snd (createRequest ''k1'' 1 ''f1'' 2 ex_request empty_store)) ''f1'' item
          \<and> map_of (f_metadata item) ''urgency'' = Some (JStr ''medium''))
   \<and> (\<exists>item. feed_item_stored empty_store
                (snd (createActivity ''k1'' 1 ''f1'' 2 ex_activity empty_store)) ''f1'' item
          \<and> map_of (f_metadata item) ''location'' = Some (JStr ''Park''))"
proof -
  let ?d = "createDonation ''k1'' 1 ''f1'' 2 ex_donation empty_store"
  let ?r = "createRequest ''k1'' 1 ''f1'' 2 ex_request empty_store"
  let ?a = "createActivity ''k1'' 1 ''f1'' 2 ex_activity empty_store"
  have fresh: "''f1'' \<notin> fst ` set (activityFeed empty_store)"
    by (simp add: empty_store_def)
  have small: "int (length (activityFeed (snd ?d))) \<le> (case None of None \<Rightarrow> 50 | Some n \<Rightarrow> n)"
    by (simp add: createDonation_def createActivityFeedItem_def Let_def empty_store_def)
  have vals: "d_id (fst ?d) = ''k1''" "d_type (fst ?d) = ''food''"
    "r_urgency (fst ?r) = Some ''medium''" "a_location (fst ?a) = JStr ''Park''"
    by (simp_all add: createDonation_def createRequest_def createActivity_def Let_def
        ex_donation_def ex_request_def ex_activity_def)
  note t = create_emits_feed_item [of "''k1''" 1 "''f1''" 2 ex_donation empty_store
      "fst ?d" "snd ?d" ex_request "fst ?r" "snd ?r" ex_activity "fst ?a" "snd ?a",
      OF prod.collapse [symmetric] prod.collapse [symmetric] prod.collapse [symmetric]]
  from t obtain item where i: "feed_item_stored empty_store (snd ?d) ''f1'' item"
    "f_type item = ''donation''"
    "map_of (f_metadata item) ''donationId'' = Some (JStr (d_id (fst ?d)))"
    "map_of (f_metadata item) ''type'' = Some (JStr (d_type (fst ?d)))"
    by blast
  from i(1) fresh have app: "activityFeed (snd ?d) = activityFeed empty_store @ [(''f1'', item)]"
    by (simp add: feed_item_stored_def)
  from i(1) have "\<forall>arg. int (length (activityFeed (snd ?d)))
        \<le> (case arg of None \<Rightarrow> 50 | Some n \<Rightarrow> n) \<longrightarrow> item \<in> set (getActivityFeed arg (snd ?d))"
    by (simp add: feed_item_stored_def)
  with small have mem: "item \<in> set (getActivityFeed None (snd ?d))"
    by blast
  have first: "int (length (filter (\<lambda>old. f_createdAt item \<le> f_createdAt old)
        (map snd (activityFeed empty_store)))) < (case Some 1 of None \<Rightarrow> 50 | Some n \<Rightarrow> n)"
    by (simp add: empty_store_def)
  from i(1) have "\<forall>arg. ''f1'' \<notin> fst ` set (activityFeed empty_store)
        \<and> int (length (filter (\<lambda>old. f_createdAt item \<le> f_createdAt old)
              (map snd (activityFeed empty_store))))
            < (case arg of None \<Rightarrow> 50 | Some n \<Rightarrow> n)
        \<longrightarrow> item \<in> set (getActivityFeed arg (snd ?d))"
    by (simp add: feed_item_stored_def)
  with fresh first have mem1: "item \<in> set (getActivityFeed (Some 1) (snd ?d))"
    by blast
  have don: "\<exists>item. activityFeed (snd ?d) = activityFeed empty_store @ [(''f1'', item)]
          \<and> item \<in> set (getActivityFeed None (snd ?d))
          \<and> item \<in> set (getActivityFeed (Some 1) (snd ?d))
          \<and> f_type item = ''donation''
          \<and> map_of (f_metadata item) ''donationId'' = Some (JStr ''k1'')
          \<and> map_of (f_metadata item) ''type'' = Some (JStr ''food'')"
    using app mem mem1 i(2-4) vals(1,2) by (intro exI [of _ item]) simp
  from t obtain ritem u where ri: "feed_item_stored empty_store (snd ?r) ''f1'' ritem"
    "r_urgency (fst ?r) = Some u" "map_of (f_metadata ritem) ''urgency'' = Some (JStr u)"
    by blast
  from ri vals(3) have req: "\<exists>item. feed_item_stored empty_store (snd ?r) ''f1'' item
          \<and> map_of (f_metadata item) ''urgency'' = Some (JStr ''medium'')"
    by (intro exI [of _ ritem]) simp
  from t obtain aitem where ai: "feed_item_stored empty_store (snd ?a) ''f1'' aitem"
    "map_of (f_metadata aitem) ''location'' = Some (a_location (fst ?a))"
    by blast
  from ai vals(4) have act: "\<exists>item. feed_item_stored empty_store (snd ?a) ''f1'' item
          \<and> map_of (f_metadata item) ''location'' = Some (JStr ''Park'')"
    by (intro exI [of _ aitem]) simp
  from fresh don req act show ?thesis by (intro conjI)
qed

text \<open>
  C1 as stated fails in its last part: the feed item is stored, but \<^verbatim>\<open>getActivityFeed\<close>
  need not return it. Of two donations created in the same millisecond,
  \<^verbatim>\<open>getActivityFeed(1)\<close> returns the item of the first only. And after fifty feed items
  created in one millisecond, the item \<^verbatim>\<open>f1\<close> of a donation created in that
  millisecond is in the feed map and is not among the fifty items that
  \<^verbatim>\<open>getActivityFeed()\<close> returns.
\<close>

theorem feed_item_cut_off_counterexample:
  "map fst (activityFeed
       (run [CreateDonation ''k1'' 5 ''f1'' 5 ex_donation,
             CreateDonation ''k2'' 5 ''f2'' 5 ex_donation])) = [''f1'', ''f2'']
   \<and> map f_id (getActivityFeed (Some 1)
       (run [CreateDonation ''k1'' 5 ''f1'' 5 ex_donation,
             CreateDonation ''k2'' 5 ''f2'' 5 ex_donation])) = [''f1'']
   \<and> map_option f_id
       (map_of (activityFeed (snd (createDonation ''k1'' 5 ''f1'' 5 ex_donation
          (run crowded_ops)))) ''f1'') = Some ''f1''
   \<and> ''f1'' \<notin> set (map f_id (getActivityFeed None
       (snd (createDonation ''k1'' 5 ''f1'' 5 ex_donation (run crowded_ops)))))"
proof -
  have two: "map fst (activityFeed
       (run [CreateDonation ''k1'' 5 ''f1'' 5 ex_donation,
             CreateDonation ''k2'' 5 ''f2'' 5 ex_donation])) = [''f1'', ''f2'']"
    "map f_id (getActivityFeed (Some 1)
       (run [CreateDonation ''k1'' 5 ''f1'' 5 ex_donation,
             CreateDonation ''k2'' 5 ''f2'' 5 ex_donation])) = [''f1'']"
    by (simp_all add: run_def empty_store_def createDonation_def createActivityFeedItem_def
        getActivityFeed_def js_sort_times slice0_def Let_def ex_donation_def)
  have fifty: "map_option f_id
       (map_of (activityFeed (snd (createDonation ''k1'' 5 ''f1'' 5 ex_donation
          (run crowded_ops)))) ''f1'') = Some ''f1''"
    "''f1'' \<notin> set (map f_id (getActivityFeed None
       (snd (createDonation ''k1'' 5 ''f1'' 5 ex_donation (run crowded_ops)))))"
    by (simp_all add: crowded_feed createDonation_def createActivityFeedItem_def Let_def
        ex_donation_def getActivityFeed_def js_sort_times slice0_def update_conv')
  from two fifty show ?thesis by (intro conjI)
qed

subsection \<open>Updates\<close>

text \<open>
  C2. Each of \<^verbatim>\<open>updateUser\<close>, \<^verbatim>\<open>updateDonation\<close>, \<^verbatim>\<open>updateRequest\<close>, \<^verbatim>\<open>updateActivity\<close>
  and \<^verbatim>\<open>updatePayment\<close>, called with an identifier that is not a key of its map, fails
  with a "not found" error and leaves the store as it was; called with an identifier
  that is a key, it does not fail.
\<close>

theorem update_fails_iff_absent:
  "(i \<notin> fst ` set (users s)
      \<longrightarrow> updateUser i userUpdate s = (Inl (Error ''User not found''), s))
   \<and> (i \<in> fst ` set (users s) \<longrightarrow> (\<exists>u. fst (updateUser i userUpdate s) = Inr u))
   \<and> (i \<notin> fst ` set (donations s)
      \<longrightarrow> updateDonation i donationUpdate s = (Inl (Error ''Donation not found''), s))
   \<and> (i \<in> fst ` set (donations s)
      \<longrightarrow> (\<exists>d. fst (updateDonation i donationUpdate s) = Inr d))
   \<and> (i \<notin> fst ` set (requests s)
      \<longrightarrow> updateRequest i requestUpdate s = (Inl (Error ''Request not found''), s))
   \<and> (i \<in> fst ` set (requests s)
      \<longrightarrow> (\<exists>r. fst (updateRequest i requestUpdate s) = Inr r))
   \<and> (i \<notin> fst ` set (activities s)
      \<longrightarrow> updateActivity i activityUpdate s = (Inl (Error ''Activity not found''), s))
   \<and> (i \<in> fst ` set (activities s)
      \<longrightarrow> (\<exists>a. fst (updateActivity i activityUpdate s) = Inr a))
   \<and> (i \<notin> fst ` set (payments s)
      \<longrightarrow> updatePayment i paymentUpdate s = (Inl (Error ''Payment not found''), s))
   \<and> (i \<in> fst ` set (payments s)
      \<longrightarrow> (\<exists>p. fst (updatePayment i paymentUpdate s) = Inr p))"
proof -
  have u: "(i \<notin> fst ` set (users s)
      \<longrightarrow> updateUser i userUpdate s = (Inl (Error ''User not found''), s))
   \<and> (i \<in> fst ` set (users s) \<longrightarrow> (\<exists>u. fst (updateUser i userUpdate s) = Inr u))"
    by (cases "map_of (users s) i") (simp_all add: updateUser_def Let_def absent_iff)
  have d: "(i \<notin> fst ` set (donations s)
      \<longrightarrow> updateDonation i donationUpdate s = (Inl (Error ''Donation not found''), s))
   \<and> (i \<in> fst ` set (donations s)
      \<longrightarrow> (\<exists>d. fst (updateDonation i donationUpdate s) = Inr d))"
    by (cases "map_of (donations s) i") (simp_all add: updateDonation_def Let_def absent_iff)
  have r: "(i \<notin> fst ` set (requests s)
      \<longrightarrow> updateRequest i requestUpdate s = (Inl (Error ''Request not found''), s))
   \<and> (i \<in> fst ` set (requests s)
      \<longrightarrow> (\<exists>r. fst (updateRequest i requestUpdate s) = Inr r))"
    by (cases "map_of (requests s) i") (simp_all add: updateRequest_def Let_def absent_iff)
  have a: "(i \<notin> fst ` set (activities s)
      \<longrightarrow> updateActivity i activityUpdate s = (Inl (Error ''Activity not found''), s))
   \<and> (i \<in> fst ` set (activities s)
      \<longrightarrow> (\<exists>a. fst (updateActivity i activityUpdate s) = Inr a))"
    by (cases "map_of (activities s) i") (simp_all add: updateActivity_def Let_def absent_iff)
  have p: "(i \<notin> fst ` set (payments s)
      \<longrightarrow> updatePayment i paymentUpdate s = (Inl (Error ''Payment not found''), s))
   \<and> (i \<in> fst ` set (payments s)
      \<longrightarrow> (\<exists>p. fst (updatePayment i paymentUpdate s) = Inr p))"
    by (cases "map_of (payments s) i") (simp_all add: updatePayment_def Let_def absent_iff)
  from u d r a p show ?thesis by blast
qed

text \<open>
  C2 at work: in the example store the key \<^verbatim>\<open>zz\<close> is in none of the five maps and the
  key \<^verbatim>\<open>k1\<close> is in all of them.
\<close>

theorem update_fails_iff_absent_witness:
  "''zz'' \<notin> fst ` set (users example_store)
   \<and> updateUser ''zz'' no_user_update example_store
       = (Inl (Error ''User not found''), example_store)
   \<and> ''zz'' \<notin> fst ` set (donations example_store)
   \<and> updateDonation ''zz'' no_donation_update example_store
       = (Inl (Error ''Donation not found''), example_store)
   \<and> ''zz'' \<notin> fst ` set (requests example_store)
   \<and> updateRequest ''zz'' no_request_update example_store
       = (Inl (Error ''Request not found''), example_store)
   \<and> ''zz'' \<notin> fst ` set (activities example_store)
   \<and> updateActivity ''zz'' no_activity_update example_store
       = (Inl (Error ''Activity not found''), example_store)
   \<and> ''zz'' \<notin> fst ` set (payments example_store)
   \<and> updatePayment ''zz'' no_payment_update example_store
       = (Inl (Error ''Payment not found''), example_store)
   \<and> ''k1'' \<in> fst ` set (users example_store)
   \<and> (\<exists>u. fst (updateUser ''k1'' no_user_update example_store) = Inr u)
   \<and> ''k1'' \<in> fst ` set (donations example_store)
   \<and> (\<exists>d. fst (updateDonation ''k1'' no_donation_update example_store) = Inr d)
   \<and> ''k1'' \<in> fst ` set (requests example_store)
   \<and> (\<exists>r. fst (updateRequest ''k1'' no_request_update example_store) = Inr r)
   \<and> ''k1'' \<in> fst ` set (activities example_store)
   \<and> (\<exists>a. fst (updateActivity ''k1'' no_activity_update example_store) = Inr a)
   \<and> ''k1'' \<in> fst ` set (payments example_store)
   \<and> (\<exists>p. fst (updatePayment ''k1'' no_payment_update example_store) = Inr p)"
  using
    update_fails_iff_absent [of "''zz''" example_store no_user_update no_donation_update
      no_request_update no_activity_update no_payment_update]
    update_fails_iff_absent [of "''k1''" example_store no_user_update no_donation_update
      no_request_update no_activity_update no_payment_update]
  by (simp add: example_key_sets)

text \<open>
  C3. For a record that is in the store, the update operation of its kind returns the
  record that is stored under the identifier afterwards, and in that record every
  field the partial update names carries the partial's value and every other field
  keeps its prior value.
\<close>

theorem update_merges_partial:
  "(map_of (users s) i = Some u \<longrightarrow>
      (\<exists>u'. fst (updateUser i userUpdate s) = Inr u'
         \<and> getUser i (snd (updateUser i userUpdate s)) = Some u'
         \<and> user_merged u userUpdate u'))
   \<and> (map_of (donations s) i = Some d \<longrightarrow>
      (\<exists>d'. fst (updateDonation i donationUpdate s) = Inr d'
         \<and> getDonation i (snd (updateDonation i donationUpdate s)) = Some d'
         \<and> donation_merged d donationUpdate d'))
   \<and> (map_of (requests s) i = Some r \<longrightarrow>
      (\<exists>r'. fst (updateRequest i requestUpdate s) = Inr r'
         \<and> getRequest i (snd (updateRequest i requestUpdate s)) = Some r'
         \<and> request_merged r requestUpdate r'))
   \<and> (map_of (activities s) i = Some a \<longrightarrow>
      (\<exists>a'. fst (updateActivity i activityUpdate s) = Inr a'
         \<and> getActivity i (snd (updateActivity i activityUpdate s)) = Some a'
         \<and> activity_merged a activityUpdate a'))
   \<and> (map_of (payments s) i = Some p \<longrightarrow>
      (\<exists>p'. fst (updatePayment i paymentUpdate s) = Inr p'
         \<and> getPayment i (snd (updatePayment i paymentUpdate s)) = Some p'
         \<and> payment_merged p paymentUpdate p'))"
proof -
  have u: "map_of (users s) i = Some u \<longrightarrow>
      (\<exists>u'. fst (updateUser i userUpdate s) = Inr u'
         \<and> getUser i (snd (updateUser i userUpdate s)) = Some u'
         \<and> user_merged u userUpdate u')"
    by (simp add: updateUser_def Let_def getUser_def update_conv' user_merged_spread)
  have d: "map_of (donations s) i = Some d \<longrightarrow>
      (\<exists>d'. fst (updateDonation i donationUpdate s) = Inr d'
         \<and> getDonation i (snd (updateDonation i donationUpdate s)) = Some d'
         \<and> donation_merged d donationUpdate d')"
    by (simp add: updateDonation_def Let_def getDonation_def update_conv'
        donation_merged_spread)
  have r: "map_of (requests s) i = Some r \<longrightarrow>
      (\<exists>r'. fst (updateRequest i requestUpdate s) = Inr r'
         \<and> getRequest i (snd (updateRequest i requestUpdate s)) = Some r'
         \<and> request_merged r requestUpdate r')"
    by (simp add: updateRequest_def Let_def getRequest_def update_conv' request_merged_spread)
  have a: "map_of (activities s) i = Some a \<longrightarrow>
      (\<exists>a'. fst (updateActivity i activityUpdate s) = Inr a'
         \<and> getActivity i (snd (updateActivity i activityUpdate s)) = Some a'
         \<and> activity_merged a activityUpdate a')"
    by (simp add: updateActivity_def Let_def getActivity_def update_conv'
        activity_merged_spread)
  have p: "map_of (payments s) i = Some p \<longrightarrow>
      (\<exists>p'. fst (updatePayment i paymentUpdate s) = Inr p'
         \<and> getPayment i (snd (updatePayment i paymentUpdate s)) = Some p'
         \<and> payment_merged p paymentUpdate p')"
    by (simp add: updatePayment_def Let_def getPayment_def update_conv' payment_merged_spread)
  from u d r a p show ?thesis by blast
qed

text \<open>
  C3 at work: the records under \<^verbatim>\<open>k1\<close> in the example store, the donation updated
  with \<^verbatim>\<open>{status: "claimed"}\<close> and the others with \<^verbatim>\<open>{}\<close>.
\<close>

theorem update_merges_partial_witness:
  "(\<exists>u u'. map_of (users example_store) ''k1'' = Some u
        \<and> fst (updateUser ''k1'' no_user_update example_store) = Inr u'
        \<and> getUser ''k1'' (snd (updateUser ''k1'' no_user_update example_store)) = Some u'
        \<and> user_merged u no_user_update u')
   \<and> (\<exists>d d'. map_of (donations example_store) ''k1'' = Some d
        \<and> fst (updateDonation ''k1'' (no_donation_update\<lparr> pd_status := Some ''claimed'' \<rparr>)
               example_store) = Inr d'
        \<and> donation_merged d (no_donation_update\<lparr> pd_status := Some ''claimed'' \<rparr>) d'
        \<and> d_status d' = ''claimed'' \<and> d_title d' = d_title d)
   \<and> (\<exists>r r'. map_of (requests example_store) ''k1'' = Some r
        \<and> fst (updateRequest ''k1'' no_request_update example_store) = Inr r'
        \<and> request_merged r no_request_update r')
   \<and> (\<exists>a a'. map_of (activities example_store) ''k1'' = Some a
        \<and> fst (updateActivity ''k1'' no_activity_update example_store) = Inr a'
        \<and> activity_merged a no_activity_update a')
   \<and> (\<exists>p p'. map_of (payments example_store) ''k1'' = Some p
        \<and> fst (updatePayment ''k1'' no_payment_update example_store) = Inr p'
        \<and> payment_merged p no_payment_update p')"
proof -
  obtain u d r a p where h:
    "map_of (users example_store) ''k1'' = Some u"
    "map_of (donations example_store) ''k1'' = Some d"
    "map_of (requests example_store) ''k1'' = Some r"
    "map_of (activities example_store) ''k1'' = Some a"
    "map_of (payments example_store) ''k1'' = Some p"
    using example_present by blast
  note t = update_merges_partial [of example_store "''k1''" u no_user_update d
      "no_donation_update\<lparr> pd_status := Some ''claimed'' \<rparr>" r no_request_update
      a no_activity_update p no_payment_update]
  from t h(1) have 1: "\<exists>u u'. map_of (users example_store) ''k1'' = Some u
        \<and> fst (updateUser ''k1'' no_user_update example_store) = Inr u'
        \<and> getUser ''k1'' (snd (updateUser ''k1'' no_user_update example_store)) = Some u'
        \<and> user_merged u no_user_update u'"
    by simp
  from t h(2) obtain d' where d':
    "fst (updateDonation ''k1'' (no_donation_update\<lparr> pd_status := Some ''claimed'' \<rparr>)
        example_store) = Inr d'"
    "donation_merged d (no_donation_update\<lparr> pd_status := Some ''claimed'' \<rparr>) d'"
    by auto
  from d'(2) have "d_status d' = ''claimed'' \<and> d_title d' = d_title d"
    by (simp add: donation_merged_def named_or_kept_def no_donation_update_def)
  with h(2) d' have 2: "\<exists>d d'. map_of (donations example_store) ''k1'' = Some d
        \<and> fst (updateDonation ''k1'' (no_donation_update\<lparr> pd_status := Some ''claimed'' \<rparr>)
               example_store) = Inr d'
        \<and> donation_merged d (no_donation_update\<lparr> pd_status := Some ''claimed'' \<rparr>) d'
        \<and> d_status d' = ''claimed'' \<and> d_title d' = d_title d"
    by blast
  from t h(3) have 3: "\<exists>r r'. map_of (requests example_store) ''k1'' = Some r
        \<and> fst (updateRequest ''k1'' no_request_update example_store) = Inr r'
        \<and> request_merged r no_request_update r'"
    by auto
  from t h(4) have 4: "\<exists>a a'. map_of (activities example_store) ''k1'' = Some a
        \<and> fst (updateActivity ''k1'' no_activity_update example_store) = Inr a'
        \<and> activity_merged a no_activity_update a'"
    by auto
  from t h(5) have 5: "\<exists>p p'. map_of (payments example_store) ''k1'' = Some p
        \<and> fst (updatePayment ''k1'' no_payment_update example_store) = Inr p'
        \<and> payment_merged p no_payment_update p'"
    by auto
  from 1 2 3 4 5 show ?thesis by (intro conjI)
qed

subsection \<open>Identifiers\<close>

text \<open>
  C4, as the code has it. No operation checks or protects the \<^verbatim>\<open>id\<close> field: the update
  operations spread the whole partial update over the record. After any sequence of
  calls on a new store in which no partial update names the \<^verbatim>\<open>id\<close> field, every record
  of every kind has in its \<^verbatim>\<open>id\<close> field the key it is stored under, which is the
  identifier drawn at its creation, and so has every record a lookup by identifier
  returns.
\<close>

theorem ids_kept_unless_named:
  assumes "\<forall>x\<in>set ops. \<not> names_id x"
  shows "ids_ok (run ops)
    \<and> (\<forall>k u. getUser k (run ops) = Some u \<longrightarrow> u_id u = k)
    \<and> (\<forall>k d. getDonation k (run ops) = Some d \<longrightarrow> d_id d = k)
    \<and> (\<forall>k r. getRequest k (run ops) = Some r \<longrightarrow> r_id r = k)
    \<and> (\<forall>k a. getActivity k (run ops) = Some a \<longrightarrow> a_id a = k)
    \<and> (\<forall>k p. getPayment k (run ops) = Some p \<longrightarrow> p_id p = k)"
proof -
  have ok: "ids_ok (run ops)"
    unfolding run_def using ids_ok_empty assms by (rule ids_ok_fold)
  then show ?thesis
    unfolding ids_ok_def getUser_def getDonation_def getRequest_def getActivity_def
      getPayment_def
    by (blast dest: keyed_lookup)
qed

text \<open>
  C4 at work: the example calls, with an update that names only \<^verbatim>\<open>status\<close>; the
  donation read back under \<^verbatim>\<open>k1\<close> has the identifier \<^verbatim>\<open>k1\<close>.
\<close>

theorem ids_kept_unless_named_witness:
  "list_all (\<lambda>x. \<not> names_id x) example_ops
   \<and> ids_ok (run example_ops)
   \<and> (\<exists>d. getDonation ''k1'' (run example_ops) = Some d \<and> d_id d = ''k1'')"
proof -
  have h: "\<forall>x\<in>set example_ops. \<not> names_id x"
    by (simp add: example_ops_def no_donation_update_def)
  obtain d where d: "getDonation ''k1'' (run example_ops) = Some d"
    using example_present(2) by (auto simp: getDonation_def example_store_def)
  from ids_kept_unless_named [OF h] d h show ?thesis by (simp add: list_all_iff)
qed

text \<open>
  C4 as stated fails: after a donation is created under \<^verbatim>\<open>k1\<close>, the call
  \<^verbatim>\<open>updateDonation("k1", {id: "other"})\<close> leaves under the key \<^verbatim>\<open>k1\<close> a record whose
  \<^verbatim>\<open>id\<close> field is \<^verbatim>\<open>other\<close>, and that record is what the call returns and what
  \<^verbatim>\<open>getDonation("k1")\<close> returns.
\<close>

theorem id_mutated_counterexample:
  "map_option d_id
     (getDonation ''k1''
        (run [CreateDonation ''k1'' 1 ''f1'' 2 ex_donation,
              UpdateDonation ''k1'' (no_donation_update\<lparr> pd_id := Some ''other'' \<rparr>)]))
     = Some ''other''
   \<and> map_sum id d_id
       (fst (updateDonation ''k1'' (no_donation_update\<lparr> pd_id := Some ''other'' \<rparr>)
              (run [CreateDonation ''k1'' 1 ''f1'' 2 ex_donation])))
     = Inr ''other''"
  by (simp add: run_def empty_store_def createDonation_def createActivityFeedItem_def
      updateDonation_def getDonation_def spread_donation_def spread_def Let_def
      ex_donation_def no_donation_update_def)

subsection \<open>Listing\<close>

text \<open>
  C5, as the code has it. For a type filter \<open>t\<close> that is not the empty string, and
  when the stored donations of type \<open>t\<close> have valid creation dates,
  \<^verbatim>\<open>getDonations({type: t})\<close> returns exactly the stored donations whose type is \<open>t\<close>,
  each as often as it is stored, newest first; donations created at the same
  millisecond stay in the order in which they were inserted, so the order is
  descending but not strictly. Without a filter, when all stored donations have valid
  creation dates, it returns all of them in that order; and with the empty string or
  nothing as the type it returns what it returns without a filter. (When a donation to
  be sorted has an Invalid Date as its creation date, which an update can give it, the
  comparison function returns \<^verbatim>\<open>NaN\<close> and the order is left to the implementation.)
\<close>

theorem getDonations_filtered_newest_first:
  "(t \<noteq> [] \<and> valid_dates (filter (\<lambda>d. d_type d = t) (map snd (donations s))) \<longrightarrow>
       mset (getDonations (Some \<lparr> df_type = Some t, df_location = loc \<rparr>) s)
         = mset (filter (\<lambda>d. d_type d = t) (map snd (donations s)))
     \<and> (\<exists>ts. map d_createdAt (getDonations (Some \<lparr> df_type = Some t, df_location = loc \<rparr>) s)
               = map Date ts \<and> newest_first ts)
     \<and> (\<forall>c. filter (\<lambda>d. d_createdAt d = c)
               (getDonations (Some \<lparr> df_type = Some t, df_location = loc \<rparr>) s)
           = filter (\<lambda>d. d_createdAt d = c)
               (filter (\<lambda>d. d_type d = t) (map snd (donations s)))))
   \<and> (valid_dates (map snd (donations s)) \<longrightarrow>
       mset (getDonations None s) = mset (map snd (donations s))
     \<and> (\<exists>ts. map d_createdAt (getDonations None s) = map Date ts \<and> newest_first ts)
     \<and> (\<forall>c. filter (\<lambda>d. d_createdAt d = c) (getDonations None s)
           = filter (\<lambda>d. d_createdAt d = c) (map snd (donations s))))
   \<and> getDonations (Some \<lparr> df_type = Some [], df_location = loc \<rparr>) s = getDonations None s
   \<and> getDonations (Some \<lparr> df_type = None, df_location = loc \<rparr>) s = getDonations None s"
proof -
  have typed: "t \<noteq> [] \<and> valid_dates (filter (\<lambda>d. d_type d = t) (map snd (donations s))) \<longrightarrow>
       mset (getDonations (Some \<lparr> df_type = Some t, df_location = loc \<rparr>) s)
         = mset (filter (\<lambda>d. d_type d = t) (map snd (donations s)))
     \<and> (\<exists>ts. map d_createdAt (getDonations (Some \<lparr> df_type = Some t, df_location = loc \<rparr>) s)
               = map Date ts \<and> newest_first ts)
     \<and> (\<forall>c. filter (\<lambda>d. d_createdAt d = c)
               (getDonations (Some \<lparr> df_type = Some t, df_location = loc \<rparr>) s)
           = filter (\<lambda>d. d_createdAt d = c)
               (filter (\<lambda>d. d_type d = t) (map snd (donations s))))"
  proof
    assume h: "t \<noteq> [] \<and> valid_dates (filter (\<lambda>d. d_type d = t) (map snd (donations s)))"
    then have eq: "getDonations (Some \<lparr> df_type = Some t, df_location = loc \<rparr>) s
        = js_sort (\<lambda>a b. js_minus (getTime (d_createdAt b)) (getTime (d_createdAt a)))
            (filter (\<lambda>d. d_type d = t) (map snd (donations s)))"
      by (simp add: getDonations_typed)
    from h have "valid_dates (filter (\<lambda>d. d_type d = t) (map snd (donations s)))" by simp
    then show "mset (getDonations (Some \<lparr> df_type = Some t, df_location = loc \<rparr>) s)
         = mset (filter (\<lambda>d. d_type d = t) (map snd (donations s)))
     \<and> (\<exists>ts. map d_createdAt (getDonations (Some \<lparr> df_type = Some t, df_location = loc \<rparr>) s)
               = map Date ts \<and> newest_first ts)
     \<and> (\<forall>c. filter (\<lambda>d. d_createdAt d = c)
               (getDonations (Some \<lparr> df_type = Some t, df_location = loc \<rparr>) s)
           = filter (\<lambda>d. d_createdAt d = c)
               (filter (\<lambda>d. d_type d = t) (map snd (donations s))))"
      unfolding eq by (rule sorted_donations)
  qed
  have untyped: "valid_dates (map snd (donations s)) \<longrightarrow>
       mset (getDonations None s) = mset (map snd (donations s))
     \<and> (\<exists>ts. map d_createdAt (getDonations None s) = map Date ts \<and> newest_first ts)
     \<and> (\<forall>c. filter (\<lambda>d. d_createdAt d = c) (getDonations None s)
           = filter (\<lambda>d. d_createdAt d = c) (map snd (donations s)))"
  proof
    assume "valid_dates (map snd (donations s))"
    then show "mset (getDonations None s) = mset (map snd (donations s))
     \<and> (\<exists>ts. map d_createdAt (getDonations None s) = map Date ts \<and> newest_first ts)
     \<and> (\<forall>c. filter (\<lambda>d. d_createdAt d = c) (getDonations None s)
           = filter (\<lambda>d. d_createdAt d = c) (map snd (donations s)))"
      unfolding getDonations_untyped(1) by (rule sorted_donations)
  qed
  from typed untyped getDonations_untyped(2,3) show ?thesis by blast
qed

text \<open>
  C5 at work: two donations of type \<^verbatim>\<open>food\<close>, the second created later, and the
  filter \<^verbatim>\<open>{type: "food"}\<close>; the later one comes first.
\<close>

theorem getDonations_filtered_newest_first_witness:
  "''food'' \<noteq> []
   \<and> valid_dates (map snd (donations
        (run [CreateDonation ''k1'' 1 ''f1'' 1 ex_donation,
              CreateDonation ''k2'' 5 ''f2'' 5 ex_donation])))
   \<and> map d_id (getDonations (Some \<lparr> df_type = Some ''food'', df_location = None \<rparr>)
        (run [CreateDonation ''k1'' 1 ''f1'' 1 ex_donation,
              CreateDonation ''k2'' 5 ''f2'' 5 ex_donation])) = [''k2'', ''k1'']
   \<and> (\<exists>ts. map d_createdAt
          (getDonations (Some \<lparr> df_type = Some ''food'', df_location = None \<rparr>)
             (run [CreateDonation ''k1'' 1 ''f1'' 1 ex_donation,
                   CreateDonation ''k2'' 5 ''f2'' 5 ex_donation])) = map Date ts
        \<and> newest_first ts)
   \<and> (\<exists>ts. map d_createdAt
          (getDonations None
             (run [CreateDonation ''k1'' 1 ''f1'' 1 ex_donation,
                   CreateDonation ''k2'' 5 ''f2'' 5 ex_donation])) = map Date ts
        \<and> newest_first ts)"
proof -
  let ?s = "run [CreateDonation ''k1'' 1 ''f1'' 1 ex_donation,
                 CreateDonation ''k2'' 5 ''f2'' 5 ex_donation]"
  have h: "''food'' \<noteq> []" by simp
  have v: "valid_dates (map snd (donations ?s))"
    "valid_dates (filter (\<lambda>d. d_type d = ''food'') (map snd (donations ?s)))"
    by (simp_all add: valid_dates_def run_def empty_store_def createDonation_def
        createActivityFeedItem_def Let_def ex_donation_def)
  have e: "map d_id (getDonations (Some \<lparr> df_type = Some ''food'', df_location = None \<rparr>) ?s)
      = [''k2'', ''k1'']"
    by (simp add: run_def empty_store_def createDonation_def createActivityFeedItem_def
        getDonations_def truthy_def Let_def ex_donation_def js_sort_def never_NaN_def
        js_minus_def)
  from getDonations_filtered_newest_first [of "''food''" ?s None] h v e
  show ?thesis by blast
qed

text \<open>
  C5 as stated fails twice. Two donations created at the same millisecond are both
  returned, so the creation times of the result, 5 and 5, do not descend strictly. And
  with the empty string as the type filter the test \<^verbatim>\<open>if (filters?.type)\<close> is false:
  the two donations of type \<^verbatim>\<open>food\<close> are returned, though no stored donation has the
  empty type.
\<close>

theorem getDonations_strict_counterexample:
  "map d_createdAt
     (getDonations None
        (run [CreateDonation ''k1'' 5 ''f1'' 5 ex_donation,
              CreateDonation ''k2'' 5 ''f2'' 5 ex_donation])) = [Date 5, Date 5]
   \<and> map d_type
     (getDonations (Some \<lparr> df_type = Some [], df_location = None \<rparr>)
        (run [CreateDonation ''k1'' 5 ''f1'' 5 ex_donation,
              CreateDonation ''k2'' 5 ''f2'' 5 ex_donation])) = [''food'', ''food'']"
  by (simp add: run_def empty_store_def createDonation_def createActivityFeedItem_def
      getDonations_def truthy_def Let_def ex_donation_def js_sort_def never_NaN_def
      js_minus_def)

text \<open>
  C6. \<^verbatim>\<open>getDonations\<close>, \<^verbatim>\<open>getRequests\<close> and \<^verbatim>\<open>getActivities\<close> return, with a location
  filter, the very list they return for the same call without it.
\<close>

theorem location_filter_ignored:
  "getDonations (Some \<lparr> df_type = t, df_location = Some loc \<rparr>) s
     = getDonations (Some \<lparr> df_type = t, df_location = None \<rparr>) s
   \<and> getDonations (Some \<lparr> df_type = None, df_location = Some loc \<rparr>) s = getDonations None s
   \<and> getRequests (Some \<lparr> rf_type = t, rf_urgency = u, rf_location = Some loc \<rparr>) s
     = getRequests (Some \<lparr> rf_type = t, rf_urgency = u, rf_location = None \<rparr>) s
   \<and> getRequests (Some \<lparr> rf_type = None, rf_urgency = None, rf_location = Some loc \<rparr>) s
     = getRequests None s
   \<and> getActivities (Some \<lparr> af_location = Some loc \<rparr>) s
     = getActivities (Some \<lparr> af_location = None \<rparr>) s
   \<and> getActivities (Some \<lparr> af_location = Some loc \<rparr>) s = getActivities None s"
  by (simp add: getDonations_def getRequests_def getActivities_def truthy_def Let_def)

subsection \<open>Organizations near a point\<close>



subsection \<open>Notifications\<close>

text \<open>
  C8. \<^verbatim>\<open>markNotificationAsRead\<close> with an identifier that is not a key of the
  notification map returns without an error and leaves the whole store as it was.
  With an identifier that is a key, the notification under it afterwards has \<^verbatim>\<open>read\<close>
  true and every other field as before; the notifications under other keys, the order
  of the keys and the other nine maps are unchanged.
\<close>

theorem markNotificationAsRead_effect:
  "(i \<notin> fst ` set (notifications s) \<longrightarrow> markNotificationAsRead i s = s)
   \<and> (map_of (notifications s) i = Some n \<longrightarrow>
        (\<exists>n'. map_of (notifications (markNotificationAsRead i s)) i = Some n'
           \<and> n_read n' = True \<and> n_id n' = n_id n \<and> n_userId n' = n_userId n
           \<and> n_createdAt n' = n_createdAt n \<and> n_payload n' = n_payload n)
        \<and> (\<forall>j. j \<noteq> i \<longrightarrow> map_of (notifications (markNotificationAsRead i s)) j
                          = map_of (notifications s) j)
        \<and> map fst (notifications (markNotificationAsRead i s)) = map fst (notifications s)
        \<and> markNotificationAsRead i s
            = s\<lparr> notifications := notifications (markNotificationAsRead i s) \<rparr>)"
proof -
  have absent: "i \<notin> fst ` set (notifications s) \<longrightarrow> markNotificationAsRead i s = s"
    by (simp add: markNotificationAsRead_def absent_iff)
  have present: "map_of (notifications s) i = Some n \<longrightarrow>
        (\<exists>n'. map_of (notifications (markNotificationAsRead i s)) i = Some n'
           \<and> n_read n' = True \<and> n_id n' = n_id n \<and> n_userId n' = n_userId n
           \<and> n_createdAt n' = n_createdAt n \<and> n_payload n' = n_payload n)
        \<and> (\<forall>j. j \<noteq> i \<longrightarrow> map_of (notifications (markNotificationAsRead i s)) j
                          = map_of (notifications s) j)
        \<and> map fst (notifications (markNotificationAsRead i s)) = map fst (notifications s)
        \<and> markNotificationAsRead i s
            = s\<lparr> notifications := notifications (markNotificationAsRead i s) \<rparr>"
  proof
    assume n: "map_of (notifications s) i = Some n"
    then have "i \<in> set (map fst (notifications s))"
      using absent_iff [of i "notifications s"] by simp
    then have keys: "map fst (AList.update i (n\<lparr> n_read := True \<rparr>) (notifications s))
        = map fst (notifications s)"
      by (simp add: update_keys)
    show "(\<exists>n'. map_of (notifications (markNotificationAsRead i s)) i = Some n'
           \<and> n_read n' = True \<and> n_id n' = n_id n \<and> n_userId n' = n_userId n
           \<and> n_createdAt n' = n_createdAt n \<and> n_payload n' = n_payload n)
        \<and> (\<forall>j. j \<noteq> i \<longrightarrow> map_of (notifications (markNotificationAsRead i s)) j
                          = map_of (notifications s) j)
        \<and> map fst (notifications (markNotificationAsRead i s)) = map fst (notifications s)
        \<and> markNotificationAsRead i s
            = s\<lparr> notifications := notifications (markNotificationAsRead i s) \<rparr>"
      using n keys by (simp add: markNotificationAsRead_def update_conv')
  qed
  from absent present show ?thesis by blast
qed

text \<open>
  C8 at work: a store with one unread notification under \<^verbatim>\<open>k1\<close>; marking the unknown
  \<^verbatim>\<open>zz\<close> changes nothing, marking \<^verbatim>\<open>k1\<close> sets its \<^verbatim>\<open>read\<close> field.
\<close>

theorem markNotificationAsRead_effect_witness:
  "''zz'' \<notin> fst ` set (notifications (run [CreateNotification ''k1'' 7 ex_notification]))
   \<and> markNotificationAsRead ''zz'' (run [CreateNotification ''k1'' 7 ex_notification])
       = run [CreateNotification ''k1'' 7 ex_notification]
   \<and> (\<exists>n n'. map_of (notifications (run [CreateNotification ''k1'' 7 ex_notification])) ''k1''
          = Some n
        \<and> n_read n = False
        \<and> map_of (notifications (markNotificationAsRead ''k1''
              (run [CreateNotification ''k1'' 7 ex_notification]))) ''k1'' = Some n'
        \<and> n_read n' = True \<and> n_payload n' = n_payload n)"
proof -
  let ?s = "run [CreateNotification ''k1'' 7 ex_notification]"
  let ?n = "fst (createNotification ''k1'' 7 ex_notification empty_store)"
  have a: "''zz'' \<notin> fst ` set (notifications ?s)"
    by (simp add: run_def createNotification_def Let_def empty_store_def)
  have n: "map_of (notifications ?s) ''k1'' = Some ?n" "n_read ?n = False"
    by (simp_all add: run_def createNotification_def Let_def empty_store_def)
  from markNotificationAsRead_effect [of "''zz''" ?s] a
  have 1: "markNotificationAsRead ''zz'' ?s = ?s" by blast
  from markNotificationAsRead_effect [of "''k1''" ?s ?n] n(1)
  obtain n' where n': "map_of (notifications (markNotificationAsRead ''k1'' ?s)) ''k1'' = Some n'"
    "n_read n' = True" "n_payload n' = n_payload ?n"
    by blast
  from a 1 n n' show ?thesis by blast
qed

text \<open>
  C10. For every input to \<^verbatim>\<open>createNotification\<close>, also one whose \<^verbatim>\<open>read\<close> field is true,
  the notification returned has \<^verbatim>\<open>read\<close> false, and it is the notification stored
  under the new identifier: the caller's value is overwritten, not defaulted.
\<close>

theorem createNotification_read_false:
  "n_read (fst (createNotification uuid now notificationData s)) = False
   \<and> map_of (notifications (snd (createNotification uuid now notificationData s))) uuid
       = Some (fst (createNotification uuid now notificationData s))
   \<and> n_read (fst (createNotification uuid now (notificationData\<lparr> nd_read := True \<rparr>) s))
       = False"
  by (simp add: createNotification_def Let_def update_conv')

subsection \<open>Matches\<close>

text \<open>
  C9, as the code has it. \<^verbatim>\<open>createMatch\<close> stores the three references as the caller
  gives them and checks nothing about them. So the matches of the store have at most
  one reference each as long as the callers give at most one: after any sequence of
  calls on a new store in which every \<^verbatim>\<open>createMatch\<close> is given at most one of
  \<^verbatim>\<open>donationId\<close>, \<^verbatim>\<open>requestId\<close> and \<^verbatim>\<open>activityId\<close>, every stored match, every match
  \<^verbatim>\<open>getMatches\<close> returns and every match a further such \<^verbatim>\<open>createMatch\<close> returns has at
  most one of the three set.
\<close>

theorem matches_one_ref_if_given:
  assumes "\<forall>x\<in>set ops. gives_one_ref x"
  shows "list_all at_most_one_ref (map snd (matches (run ops)))
    \<and> list_all at_most_one_ref (getMatches userId (run ops))
    \<and> m_donationId (fst (createMatch uuid now matchData (run ops))) = md_donationId matchData
    \<and> m_requestId (fst (createMatch uuid now matchData (run ops))) = md_requestId matchData
    \<and> m_activityId (fst (createMatch uuid now matchData (run ops))) = md_activityId matchData
    \<and> (gives_one_ref (CreateMatch uuid now matchData)
         \<longrightarrow> at_most_one_ref (fst (createMatch uuid now matchData (run ops))))"
proof -
  have "list_all at_most_one_ref (map snd (matches empty_store))"
    by (simp add: empty_store_def)
  then have stored: "list_all at_most_one_ref (map snd (matches (run ops)))"
    unfolding run_def using assms by (rule matches_ok_fold)
  then have listed: "list_all at_most_one_ref (getMatches userId (run ops))"
    by (auto simp: getMatches_def list_all_iff)
  have copied:
    "m_donationId (fst (createMatch uuid now matchData (run ops))) = md_donationId matchData"
    "m_requestId (fst (createMatch uuid now matchData (run ops))) = md_requestId matchData"
    "m_activityId (fst (createMatch uuid now matchData (run ops))) = md_activityId matchData"
    by (simp_all add: createMatch_def Let_def)
  have returned: "gives_one_ref (CreateMatch uuid now matchData)
         \<longrightarrow> at_most_one_ref (fst (createMatch uuid now matchData (run ops)))"
    by (simp add: createMatch_refs)
  from stored listed copied returned show ?thesis by blast
qed

text \<open>
  C9 at work: the example calls hold one \<^verbatim>\<open>createMatch\<close>, given a donation only, as
  the donation route of the server gives it.
\<close>

theorem matches_one_ref_if_given_witness:
  "list_all gives_one_ref example_ops
   \<and> gives_one_ref (CreateMatch ''k2'' 9 ex_match)
   \<and> list_all at_most_one_ref (map snd (matches (run example_ops)))
   \<and> list_all at_most_one_ref (getMatches ''k1'' (run example_ops))
   \<and> at_most_one_ref (fst (createMatch ''k2'' 9 ex_match (run example_ops)))"
proof -
  have h: "\<forall>x\<in>set example_ops. gives_one_ref x"
    by (simp add: example_ops_def ex_match_def refs_set_def)
  have g: "gives_one_ref (CreateMatch ''k2'' 9 ex_match)"
    by (simp add: ex_match_def refs_set_def)
  from matches_one_ref_if_given [OF h, of "''k1''" "''k2''" 9 ex_match] h g
  show ?thesis by (simp add: list_all_iff)
qed

text \<open>
  C9 as stated fails: \<^verbatim>\<open>createMatch\<close> on a new store, given a donation and a request,
  returns and stores a match that has both.
\<close>

theorem match_two_refs_counterexample:
  "m_donationId (fst (createMatch ''m1'' 1 ex_match_two empty_store)) = Some ''k1''
   \<and> m_requestId (fst (createMatch ''m1'' 1 ex_match_two empty_store)) = Some ''k1''
   \<and> map_of (matches (snd (createMatch ''m1'' 1 ex_match_two empty_store))) ''m1''
       = Some (fst (createMatch ''m1'' 1 ex_match_two empty_store))
   \<and> getMatches ''k1'' (run [CreateMatch ''m1'' 1 ex_match_two])
       = [fst (createMatch ''m1'' 1 ex_match_two empty_store)]"
  by (simp add: createMatch_def getMatches_def run_def Let_def ex_match_two_def empty_store_def)

end
